theory Spec2Isabelle
  imports Complex_Main "HOL-Library.AList"
begin

section \<open>JavaScript values\<close>

text \<open>
  A thrown JavaScript \<open>Error\<close> carries its message.  Every \<open>async\<close> function of the
  source becomes a function returning \<open>js_error + 'a\<close>, with \<open>Inl\<close> for a rejected promise.
\<close>

datatype js_error = Error string

fun error_message :: "js_error \<Rightarrow> string" where
  "error_message (Error m) = m"

text \<open>
  Optional string arguments (\<open>sessionId\<close>, \<open>customerToken\<close>, \<open>cartId\<close>) are
  \<open>string option\<close>, with \<open>None\<close> for \<open>undefined\<close> and \<open>null\<close>.  The source tests them
  with \<open>if (x)\<close>, which is false for \<open>undefined\<close>, \<open>null\<close> and the empty string.
\<close>

fun truthy_str :: "string option \<Rightarrow> bool" where
  "truthy_str None = False"
| "truthy_str (Some s) = (s \<noteq> [])"

text \<open>
  \<open>Array.prototype.slice(start)\<close> with one argument: a negative \<open>start\<close> counts from the
  end and is clamped at the beginning of the array; \<open>-0\<close> is \<open>0\<close>.
\<close>

definition slice :: "'a list \<Rightarrow> int \<Rightarrow> 'a list" where
  "slice xs start =
     (if start < 0 then drop (nat (int (length xs) + start)) xs else drop (nat start) xs)"

section \<open>Session manager\<close>

text \<open>
  The session object of \<open>createSession\<close>.  Timestamps are the milliseconds behind the ISO
  strings the source stores.
\<close>

datatype user_type = Guest | LoggedIn

record chat_message =
  role :: string
  content :: string
  timestamp :: int
  toolsUsed :: "string list option"
  intent :: "string option"

record msg_metadata =
  md_toolsUsed :: "string list option"
  md_intent :: "string option"

record session =
  sessionId :: string
  userType :: user_type
  customerToken :: "string option"
  cartId :: "string option"
  conversationHistory :: "chat_message list"
  createdAt :: int
  lastActivity :: int

text \<open>
  The persistent storage handed to the constructor is not part of the repository (the chat
  action passes \<open>null\<close>): it is a parameter, three operations over a state of its own, each
  of which may throw.
\<close>

record 'd storage =
  st_get :: "string \<Rightarrow> 'd \<Rightarrow> (js_error + session option) \<times> 'd"
  st_set :: "string \<Rightarrow> session \<Rightarrow> 'd \<Rightarrow> (js_error + unit) \<times> 'd"
  st_delete :: "string \<Rightarrow> 'd \<Rightarrow> (js_error + unit) \<times> 'd"
  st_state :: 'd

text \<open>
  \<open>this.sessions\<close> is a JavaScript \<open>Map\<close>: an association list in insertion order, where
  \<open>set\<close> on a key already present replaces the value in place.  The source holds a session
  as one mutable object, changed in place and then saved under its own id; the model holds
  it by value, which is the same thing as long as a session sits in the cache under its own
  id (\<open>cache_keyed\<close> below).
\<close>

record 'd manager =
  sessions :: "(string \<times> session) list"
  storage :: "'d storage option"

definition loadSession :: "'d manager \<Rightarrow> string \<Rightarrow> session option \<times> 'd manager" where
  "loadSession m sid =
     (case map_of (sessions m) sid of
        Some s \<Rightarrow> (Some s, m)
      | None \<Rightarrow>
          (case storage m of
             None \<Rightarrow> (None, m)
           | Some st \<Rightarrow>
               (case st_get st sid (st_state st) of
                  (Inr (Some s), d) \<Rightarrow>
                    (Some s, m\<lparr>sessions := AList.update sid s (sessions m),
                               storage := Some (st\<lparr>st_state := d\<rparr>)\<rparr>)
                | (Inr None, d) \<Rightarrow> (None, m\<lparr>storage := Some (st\<lparr>st_state := d\<rparr>)\<rparr>)
                | (Inl e, d) \<Rightarrow> (None, m\<lparr>storage := Some (st\<lparr>st_state := d\<rparr>)\<rparr>))))"

text \<open>
  \<open>saveSession\<close> stamps the session, writes it to the cache under its own id and writes it
  through to the storage, where a failure is logged and swallowed.  The clock is read once
  per operation: \<open>now\<close>.
\<close>

definition saveSession :: "'d manager \<Rightarrow> session \<Rightarrow> int \<Rightarrow> session \<times> 'd manager" where
  "saveSession m s now =
     (let s' = s\<lparr>lastActivity := now\<rparr>;
          m' = m\<lparr>sessions := AList.update (sessionId s') s' (sessions m)\<rparr>
      in case storage m' of
           None \<Rightarrow> (s', m')
         | Some st \<Rightarrow>
             (case st_set st (sessionId s') s' (st_state st) of
                (r, d) \<Rightarrow> (s', m'\<lparr>storage := Some (st\<lparr>st_state := d\<rparr>)\<rparr>)))"

text \<open>\<open>uuid\<close> is the value \<open>uuidv4()\<close> returns.\<close>

definition createSession ::
  "'d manager \<Rightarrow> string option \<Rightarrow> string option \<Rightarrow> int \<Rightarrow> string \<Rightarrow> session \<times> 'd manager" where
  "createSession m token cart now uuid =
     saveSession m
       \<lparr>sessionId = uuid,
        userType = (if truthy_str token then LoggedIn else Guest),
        customerToken = (if truthy_str token then token else None),
        cartId = (if truthy_str cart then cart else None),
        conversationHistory = [],
        createdAt = now,
        lastActivity = now\<rparr> now"

definition getOrCreateSession ::
  "'d manager \<Rightarrow> string option \<Rightarrow> string option \<Rightarrow> string option \<Rightarrow> int \<Rightarrow> string
     \<Rightarrow> session \<times> 'd manager" where
  "getOrCreateSession m sid token cart now uuid =
     (case (if truthy_str sid then sid else None) of
        None \<Rightarrow> createSession m token cart now uuid
      | Some i \<Rightarrow>
          (case loadSession m i of
             (Some existingSession, m1) \<Rightarrow>
               if truthy_str token \<and> \<not> truthy_str (customerToken existingSession)
               then saveSession m1
                      (existingSession\<lparr>customerToken := token, userType := LoggedIn\<rparr>) now
               else (existingSession, m1)
           | (None, m1) \<Rightarrow> createSession m1 token cart now uuid))"

definition not_found :: "string \<Rightarrow> js_error" where
  "not_found sid = Error (''Session not found: '' @ sid)"

definition addMessage ::
  "'d manager \<Rightarrow> string \<Rightarrow> string \<Rightarrow> string \<Rightarrow> msg_metadata \<Rightarrow> int
     \<Rightarrow> (js_error + chat_message) \<times> 'd manager" where
  "addMessage m sid r c metadata now =
     (case loadSession m sid of
        (None, m1) \<Rightarrow> (Inl (not_found sid), m1)
      | (Some s, m1) \<Rightarrow>
          (let message = \<lparr>role = r, content = c, timestamp = now,
                          toolsUsed = md_toolsUsed metadata, intent = md_intent metadata\<rparr>;
               pushed = conversationHistory s @ [message];
               s1 = s\<lparr>conversationHistory :=
                        (if length pushed > 50 then slice pushed (- 50) else pushed)\<rparr>
           in (Inr message, snd (saveSession m1 s1 now))))"

text \<open>\<open>limit\<close> is \<open>None\<close> when the caller leaves it out; the default is 10.\<close>

definition getHistory ::
  "'d manager \<Rightarrow> string \<Rightarrow> int option \<Rightarrow> chat_message list \<times> 'd manager" where
  "getHistory m sid limit =
     (case loadSession m sid of
        (None, m1) \<Rightarrow> ([], m1)
      | (Some s, m1) \<Rightarrow>
          (slice (conversationHistory s) (- (case limit of None \<Rightarrow> 10 | Some l \<Rightarrow> l)), m1))"

definition updateCartId ::
  "'d manager \<Rightarrow> string \<Rightarrow> string option \<Rightarrow> int \<Rightarrow> (js_error + unit) \<times> 'd manager" where
  "updateCartId m sid cart now =
     (case loadSession m sid of
        (None, m1) \<Rightarrow> (Inl (not_found sid), m1)
      | (Some s, m1) \<Rightarrow> (Inr (), snd (saveSession m1 (s\<lparr>cartId := cart\<rparr>) now)))"

definition clearHistory ::
  "'d manager \<Rightarrow> string \<Rightarrow> int \<Rightarrow> (js_error + unit) \<times> 'd manager" where
  "clearHistory m sid now =
     (case loadSession m sid of
        (Some s, m1) \<Rightarrow> (Inr (), snd (saveSession m1 (s\<lparr>conversationHistory := []\<rparr>) now))
      | (None, m1) \<Rightarrow> (Inr (), m1))"

definition deleteSession :: "'d manager \<Rightarrow> string \<Rightarrow> 'd manager" where
  "deleteSession m sid =
     (let m' = m\<lparr>sessions := AList.delete sid (sessions m)\<rparr>
      in case storage m' of
           None \<Rightarrow> m'
         | Some st \<Rightarrow>
             (case st_delete st sid (st_state st) of
                (r, d) \<Rightarrow> m'\<lparr>storage := Some (st\<lparr>st_state := d\<rparr>)\<rparr>))"

text \<open>
  \<open>cleanupOldSessions\<close> walks the entries of the cache and deletes the stale ones.  Deleting
  the entry under the cursor does not disturb the walk over the others, so the loop runs
  over the entries as they were when it started.
\<close>

fun cleanup_loop :: "'d manager \<Rightarrow> int \<Rightarrow> (string \<times> session) list \<Rightarrow> 'd manager" where
  "cleanup_loop m cutoffTime [] = m"
| "cleanup_loop m cutoffTime ((sid, s) # rest) =
     cleanup_loop (if lastActivity s < cutoffTime then deleteSession m sid else m)
       cutoffTime rest"

definition cleanupOldSessions :: "'d manager \<Rightarrow> int option \<Rightarrow> int \<Rightarrow> 'd manager" where
  "cleanupOldSessions m maxAgeHours now =
     cleanup_loop m
       (now - (case maxAgeHours of None \<Rightarrow> 24 | Some h \<Rightarrow> h) * 60 * 60 * 1000)
       (sessions m)"

section \<open>Parameter values\<close>

text \<open>
  The values that travel in an intent's \<open>parameters\<close>, in a tool's \<open>params\<close> and in the
  answers of the commerce backend.  A JavaScript number is a finite value, an infinity or
  \<open>NaN\<close>; an object is its property list, read with \<open>map_of\<close> and written with
  \<open>AList.update\<close>, as an assignment to a property does.
\<close>

datatype jsnum = Fin rat | PosInf | NegInf | NaN

datatype jsval =
    JUndefined
  | JNull
  | JBool bool
  | JNum jsnum
  | JStr string
  | JArr "jsval list"
  | JObj "(string \<times> jsval) list"

fun truthy :: "jsval \<Rightarrow> bool" where
  "truthy JUndefined = False"
| "truthy JNull = False"
| "truthy (JBool b) = b"
| "truthy (JNum (Fin r)) = (r \<noteq> 0)"
| "truthy (JNum NaN) = False"
| "truthy (JNum PosInf) = True"
| "truthy (JNum NegInf) = True"
| "truthy (JStr s) = (s \<noteq> [])"
| "truthy (JArr xs) = True"
| "truthy (JObj kvs) = True"

definition obj_get :: "(string \<times> jsval) list \<Rightarrow> string \<Rightarrow> jsval" where
  "obj_get obj k = (case map_of obj k of None \<Rightarrow> JUndefined | Some v \<Rightarrow> v)"

text \<open>A destructuring default, \<open>{ k = d } = params\<close>, applies to \<open>undefined\<close> only.\<close>

definition with_default :: "jsval \<Rightarrow> jsval \<Rightarrow> jsval" where
  "with_default d v = (if v = JUndefined then d else v)"

text \<open>
  \<open>ToNumber\<close>: the conversion of strings, arrays and objects is the runtime's and stays a
  parameter, \<open>coerce\<close>.
\<close>

fun ToNumber :: "(jsval \<Rightarrow> jsnum) \<Rightarrow> jsval \<Rightarrow> jsnum" where
  "ToNumber coerce (JNum n) = n"
| "ToNumber coerce JUndefined = NaN"
| "ToNumber coerce JNull = Fin 0"
| "ToNumber coerce (JBool b) = Fin (if b then 1 else 0)"
| "ToNumber coerce v = coerce v"

fun Math_min :: "jsnum \<Rightarrow> jsnum \<Rightarrow> jsnum" where
  "Math_min NaN y = NaN"
| "Math_min x NaN = NaN"
| "Math_min NegInf y = NegInf"
| "Math_min x NegInf = NegInf"
| "Math_min PosInf y = y"
| "Math_min x PosInf = x"
| "Math_min (Fin a) (Fin b) = Fin (min a b)"

text \<open>The comparison \<open>x > y\<close> of two numbers; it is false when either is \<open>NaN\<close>.\<close>

fun js_gt :: "jsnum \<Rightarrow> jsnum \<Rightarrow> bool" where
  "js_gt NaN y = False"
| "js_gt x NaN = False"
| "js_gt NegInf y = False"
| "js_gt x PosInf = False"
| "js_gt PosInf y = True"
| "js_gt x NegInf = True"
| "js_gt (Fin a) (Fin b) = (a > b)"

text \<open>
  Reading a named property of a backend answer: of \<open>undefined\<close> and \<open>null\<close> it throws a
  \<open>TypeError\<close>, of an object it is the property or \<open>undefined\<close>, and a string, number,
  boolean or array has no property of the names read here.
\<close>

fun get_prop :: "jsval \<Rightarrow> string \<Rightarrow> js_error + jsval" where
  "get_prop JUndefined k =
     Inl (Error (''Cannot read properties of undefined (reading '' @ [CHR 0x27] @ k @ [CHR 0x27] @ '')''))"
| "get_prop JNull k =
     Inl (Error (''Cannot read properties of null (reading '' @ [CHR 0x27] @ k @ [CHR 0x27] @ '')''))"
| "get_prop (JObj kvs) k = Inr (obj_get kvs k)"
| "get_prop v k = Inr JUndefined"

section \<open>Built-in tools\<close>

text \<open>
  The result object of a tool; a field the source leaves out is \<open>undefined\<close>
  (\<open>JUndefined\<close>, \<open>None\<close>).
\<close>

record tool_result =
  success :: bool
  data :: jsval
  error :: "string option"
  message :: "string option"

record call_context =
  ctx_customerToken :: "string option"
  ctx_cartId :: "string option"

definition failure :: "string \<Rightarrow> tool_result" where
  "failure e = \<lparr>success = False, data = JUndefined, error = Some e, message = None\<rparr>"

text \<open>The GraphQL documents of \<open>queries.js\<close>, by name.\<close>

datatype gql_doc =
    PRODUCT_SEARCH_QUERY
  | GET_PRODUCT_DETAILS_QUERY
  | CREATE_EMPTY_CART_MUTATION
  | ADD_PRODUCTS_TO_CART_MUTATION
  | GET_CART_QUERY
  | UPDATE_CART_ITEMS_MUTATION
  | REMOVE_ITEM_FROM_CART_MUTATION

text \<open>
  \<open>magentoClient.query(queryString, variables, customerToken)\<close> (and \<open>mutate\<close>, which is
  the same call) reaches the commerce backend over the network: a parameter, acting on the
  state \<open>'w\<close> of the world outside.
\<close>

type_synonym 'w magento_client =
  "gql_doc \<Rightarrow> jsval \<Rightarrow> string option \<Rightarrow> 'w \<Rightarrow> (js_error + jsval) \<times> 'w"

type_synonym 'w tool_exec =
  "(string \<times> jsval) list \<Rightarrow> call_context \<Rightarrow> 'w \<Rightarrow> (js_error + tool_result) \<times> 'w"

type_synonym 'w tool_exec_named = "string \<Rightarrow> 'w tool_exec"

record 'w tool =
  name :: string
  execute :: "'w tool_exec"

text \<open>
  Every \<open>execute\<close> has one shape: inside a \<open>try\<close>, one call to the backend, then the
  result object built from its answer; the \<open>catch\<close> turns whatever was thrown into a
  failed result.
\<close>

definition run_tool ::
  "'w magento_client \<Rightarrow> gql_doc \<Rightarrow> jsval \<Rightarrow> string option \<Rightarrow> (jsval \<Rightarrow> js_error + tool_result)
     \<Rightarrow> 'w \<Rightarrow> (js_error + tool_result) \<times> 'w" where
  "run_tool magentoClient doc variables token shape w =
     (case magentoClient doc variables token w of
        (Inl e, w') \<Rightarrow> (Inr (failure (error_message e)), w')
      | (Inr d, w') \<Rightarrow>
          (case shape d of
             Inl e \<Rightarrow> (Inr (failure (error_message e)), w')
           | Inr r \<Rightarrow> (Inr r, w')))"

text \<open>The variables \<open>productSearchTool.execute\<close> sends with its query.\<close>

definition search_variables :: "(jsval \<Rightarrow> jsnum) \<Rightarrow> (string \<times> jsval) list \<Rightarrow> (string \<times> jsval) list" where
  "search_variables coerce params =
     (let query = obj_get params ''query'';
          pageSize = with_default (JNum (Fin 10)) (obj_get params ''pageSize'');
          currentPage = with_default (JNum (Fin 1)) (obj_get params ''currentPage'')
      in [(''search'', query),
          (''pageSize'', JNum (Math_min (ToNumber coerce pageSize) (Fin 20))),
          (''currentPage'', currentPage)])"

text \<open>
  What a tool makes of the backend's answer is a parameter, \<open>present\<close>, given the tool's
  name and its \<open>params\<close>; it may throw on an answer of the wrong shape.  Only
  \<open>create_cart\<close>, whose answer is the cart reference, is written out.
\<close>

type_synonym presenter =
  "string \<Rightarrow> (string \<times> jsval) list \<Rightarrow> jsval \<Rightarrow> js_error + tool_result"

definition productSearchTool ::
  "'w magento_client \<Rightarrow> (jsval \<Rightarrow> jsnum) \<Rightarrow> presenter \<Rightarrow> 'w tool" where
  "productSearchTool magentoClient coerce present =
     \<lparr>name = ''search_products'',
      execute = (\<lambda>params ctx.
        run_tool magentoClient PRODUCT_SEARCH_QUERY (JObj (search_variables coerce params)) None
          (present ''search_products'' params))\<rparr>"

definition getProductDetailsTool :: "'w magento_client \<Rightarrow> presenter \<Rightarrow> 'w tool" where
  "getProductDetailsTool magentoClient present =
     \<lparr>name = ''get_product_details'',
      execute = (\<lambda>params ctx.
        run_tool magentoClient GET_PRODUCT_DETAILS_QUERY
          (JObj [(''sku'', obj_get params ''sku'')]) None
          (present ''get_product_details'' params))\<rparr>"

definition createCart_result :: "jsval \<Rightarrow> js_error + tool_result" where
  "createCart_result d =
     (case get_prop d ''createEmptyCart'' of
        Inl e \<Rightarrow> Inl e
      | Inr cart \<Rightarrow>
          Inr \<lparr>success = True, data = JObj [(''cartId'', cart)], error = None,
               message = Some ''Shopping cart created successfully''\<rparr>)"

definition createCartTool :: "'w magento_client \<Rightarrow> 'w tool" where
  "createCartTool magentoClient =
     \<lparr>name = ''create_cart'',
      execute = (\<lambda>params ctx.
        run_tool magentoClient CREATE_EMPTY_CART_MUTATION (JObj []) (ctx_customerToken ctx)
          createCart_result)\<rparr>"

definition addToCartTool :: "'w magento_client \<Rightarrow> presenter \<Rightarrow> 'w tool" where
  "addToCartTool magentoClient present =
     \<lparr>name = ''add_to_cart'',
      execute = (\<lambda>params ctx.
        run_tool magentoClient ADD_PRODUCTS_TO_CART_MUTATION
          (JObj [(''cartId'', obj_get params ''cartId''),
                 (''cartItems'',
                    JArr [JObj [(''sku'', obj_get params ''sku''),
                                (''quantity'',
                                   with_default (JNum (Fin 1)) (obj_get params ''quantity''))]])])
          (ctx_customerToken ctx)
          (present ''add_to_cart'' params))\<rparr>"

definition getCartTool :: "'w magento_client \<Rightarrow> presenter \<Rightarrow> 'w tool" where
  "getCartTool magentoClient present =
     \<lparr>name = ''get_cart'',
      execute = (\<lambda>params ctx.
        run_tool magentoClient GET_CART_QUERY (JObj [(''cartId'', obj_get params ''cartId'')])
          (ctx_customerToken ctx)
          (present ''get_cart'' params))\<rparr>"

definition updateCartItemTool :: "'w magento_client \<Rightarrow> presenter \<Rightarrow> 'w tool" where
  "updateCartItemTool magentoClient present =
     \<lparr>name = ''update_cart_item'',
      execute = (\<lambda>params ctx.
        run_tool magentoClient UPDATE_CART_ITEMS_MUTATION
          (JObj [(''cartId'', obj_get params ''cartId''),
                 (''cartItemId'', obj_get params ''cartItemId''),
                 (''quantity'', obj_get params ''quantity'')])
          (ctx_customerToken ctx)
          (present ''update_cart_item'' params))\<rparr>"

definition removeCartItemTool :: "'w magento_client \<Rightarrow> presenter \<Rightarrow> 'w tool" where
  "removeCartItemTool magentoClient present =
     \<lparr>name = ''remove_cart_item'',
      execute = (\<lambda>params ctx.
        run_tool magentoClient REMOVE_ITEM_FROM_CART_MUTATION
          (JObj [(''cartId'', obj_get params ''cartId''),
                 (''cartItemId'', obj_get params ''cartItemId'')])
          (ctx_customerToken ctx)
          (present ''remove_cart_item'' params))\<rparr>"

text \<open>\<open>this.tools\<close> of \<open>BuiltInTools\<close>, once \<open>initialize\<close> has made the client.\<close>

definition BuiltInTools ::
  "'w magento_client \<Rightarrow> (jsval \<Rightarrow> jsnum) \<Rightarrow> presenter \<Rightarrow> 'w tool list" where
  "BuiltInTools magentoClient coerce present =
     [productSearchTool magentoClient coerce present,
      getProductDetailsTool magentoClient present,
      createCartTool magentoClient,
      addToCartTool magentoClient present,
      getCartTool magentoClient present,
      updateCartItemTool magentoClient present,
      removeCartItemTool magentoClient present]"

definition executeTool ::
  "'w tool list \<Rightarrow> string \<Rightarrow> (string \<times> jsval) list \<Rightarrow> call_context \<Rightarrow> 'w
     \<Rightarrow> (js_error + tool_result) \<times> 'w" where
  "executeTool tools toolName params ctx w =
     (case find (\<lambda>t. name t = toolName) tools of
        None \<Rightarrow> (Inr (failure (''Unknown tool: '' @ toolName)), w)
      | Some t \<Rightarrow>
          (case execute t params ctx w of
             (Inl e, w') \<Rightarrow> (Inr (failure (error_message e)), w')
           | (Inr r, w') \<Rightarrow> (Inr r, w')))"

text \<open>
  \<open>ToolAdapter.executeTool\<close>: \<open>this.implementation\<close> is \<open>null\<close> until \<open>initialize\<close> has
  run.
\<close>

definition ToolAdapter_executeTool :: "'w tool list option \<Rightarrow> 'w tool_exec_named" where
  "ToolAdapter_executeTool implementation toolName params ctx w =
     (case implementation of
        None \<Rightarrow> (Inl (Error ''ToolAdapter not initialized. Call initialize() first.''), w)
      | Some tools \<Rightarrow> executeTool tools toolName params ctx w)"

section \<open>Strings\<close>

text \<open>
  Messages are byte strings.  \<open>toLowerCase\<close> is modelled on the ASCII letters, which is
  where the keywords of the fallback live; \<open>includes\<close> is substring search.
\<close>

definition lower_char :: "char \<Rightarrow> char" where
  "lower_char c =
     (let n = (of_char c :: nat) in if 65 \<le> n \<and> n \<le> 90 then char_of (n + 32) else c)"

definition toLowerCase :: "string \<Rightarrow> string" where
  "toLowerCase s = map lower_char s"

fun startsWith :: "string \<Rightarrow> string \<Rightarrow> bool" where
  "startsWith s [] = True"
| "startsWith [] (c # cs) = False"
| "startsWith (x # xs) (c # cs) = (x = c \<and> startsWith xs cs)"

fun str_includes :: "string \<Rightarrow> string \<Rightarrow> bool" where
  "str_includes [] t = (t = [])"
| "str_includes (x # xs) t = (startsWith (x # xs) t \<or> str_includes xs t)"

fun join :: "string \<Rightarrow> string list \<Rightarrow> string" where
  "join sep [] = []"
| "join sep [x] = x"
| "join sep (x # y # ys) = x @ sep @ join sep (y # ys)"

text \<open>
  \<open>content.match(/\{[\s\S]*\}/)\<close>: the match starts at the first opening brace and, the
  star being greedy, ends at the last closing brace after it; there is no match when no
  closing brace follows the first opening one.
\<close>

definition jsonMatch :: "string \<Rightarrow> string option" where
  "jsonMatch s =
     (case dropWhile (\<lambda>c. c \<noteq> CHR ''{'') s of
        [] \<Rightarrow> None
      | b # rest \<Rightarrow>
          (if CHR ''}'' \<in> set rest
           then Some (b # rev (dropWhile (\<lambda>c. c \<noteq> CHR ''}'') (rev rest)))
           else None))"

section \<open>Agent orchestrator\<close>

record agent_intent =
  intent_type :: string
  requiresTools :: bool
  suggestedTools :: "string list"
  parameters :: "(string \<times> jsval) list"

record gen_options =
  temperature :: rat
  maxTokens :: nat

record completion =
  completion_content :: string
  usage :: jsval

text \<open>
  \<open>llmProvider.generateCompletion(messages, options)\<close>, a message being its role and its
  content, and \<open>JSON.parse\<close> are parameters.  What \<open>JSON.parse\<close> returns is read as an
  intent, an object with the four fields of the prompt's format; it throws on a text that is
  not JSON.
\<close>

type_synonym llm_provider = "(string \<times> string) list \<Rightarrow> gen_options \<Rightarrow> js_error + completion"

type_synonym json_parser = "string \<Rightarrow> js_error + agent_intent"

definition systemPrompt :: string where
  "systemPrompt =
     ''You are a helpful AI shopping assistant for an e-commerce store. Your role is to help customers:\<newline>'' @
     ''\<newline>'' @
     ''1. Find products they're looking for\<newline>'' @
     ''2. Get detailed product information\<newline>'' @
     ''3. Add products to their shopping cart\<newline>'' @
     ''4. View and manage their cart\<newline>'' @
     ''\<newline>'' @
     ''Available tools:\<newline>'' @
     ''- search_products: Search the product catalog\<newline>'' @
     ''- get_product_details: Get details about a specific product\<newline>'' @
     ''- create_cart: Create a new shopping cart\<newline>'' @
     ''- add_to_cart: Add products to the cart\<newline>'' @
     ''- get_cart: View cart contents\<newline>'' @
     ''- update_cart_item: Update item quantities\<newline>'' @
     ''- remove_cart_item: Remove items from cart\<newline>'' @
     ''\<newline>'' @
     ''Guidelines:\<newline>'' @
     ''- Be friendly, helpful, and conversational\<newline>'' @
     ''- Always confirm before adding items to cart\<newline>'' @
     ''- Provide clear product information (price, availability)\<newline>'' @
     ''- Suggest alternatives if products are out of stock\<newline>'' @
     ''- Keep responses concise but informative\<newline>'' @
     ''- Use tools proactively to help the customer\<newline>'' @
     ''\<newline>'' @
     ''When the user wants to search for products, use search_products.\<newline>'' @
     ''When they want to add something to cart, use add_to_cart (make sure you have a cartId).\<newline>'' @
     ''If no cart exists, create one first with create_cart.''"

definition intentPrompt :: string where
  "intentPrompt =
     ''Analyze the user's message and determine their intent. Respond ONLY with valid JSON.\<newline>'' @
     ''\<newline>'' @
     ''Intent types:\<newline>'' @
     ''- product_search: User wants to find products\<newline>'' @
     ''- product_details: User wants details about a specific product\<newline>'' @
     ''- add_to_cart: User wants to add something to cart\<newline>'' @
     ''- view_cart: User wants to see their cart\<newline>'' @
     ''- cart_management: User wants to update/remove cart items\<newline>'' @
     ''- general_question: General inquiry\<newline>'' @
     ''- greeting: User is greeting\<newline>'' @
     ''\<newline>'' @
     ''JSON format:\<newline>'' @
     ''{\<newline>'' @
     ''  \"type\": \"intent_type\",\<newline>'' @
     ''  \"requiresTools\": true/false,\<newline>'' @
     ''  \"suggestedTools\": [\"tool1\", \"tool2\"],\<newline>'' @
     ''  \"parameters\": {}\<newline>'' @
     ''}''"

definition general_question :: agent_intent where
  "general_question =
     \<lparr>intent_type = ''general_question'', requiresTools = False, suggestedTools = [],
      parameters = []\<rparr>"

text \<open>The \<open>catch\<close> branch of \<open>analyzeIntent\<close>: keywords in the lower-cased message.\<close>

definition fallbackIntent :: "string \<Rightarrow> agent_intent" where
  "fallbackIntent userMessage =
     (let lowerMessage = toLowerCase userMessage
      in if str_includes lowerMessage ''search'' \<or> str_includes lowerMessage ''find'' \<or>
            str_includes lowerMessage ''show'' \<or> str_includes lowerMessage ''looking for''
         then \<lparr>intent_type = ''product_search'', requiresTools = True,
               suggestedTools = [''search_products''],
               parameters = [(''query'', JStr userMessage)]\<rparr>
         else if str_includes lowerMessage ''cart''
         then \<lparr>intent_type = ''view_cart'', requiresTools = True,
               suggestedTools = [''get_cart''], parameters = []\<rparr>
         else general_question)"

text \<open>
  The \<open>try\<close> block of \<open>analyzeIntent\<close>: whatever the model call or \<open>JSON.parse\<close> throws
  leaves it as \<open>Inl\<close>; a reply without a brace-delimited region returns the default
  intent from inside the block.
\<close>

definition analyzeIntent_try ::
  "llm_provider \<Rightarrow> json_parser \<Rightarrow> string \<Rightarrow> js_error + agent_intent" where
  "analyzeIntent_try generateCompletion JSON_parse userMessage =
     (case generateCompletion
             [(''system'', intentPrompt),
              (''user'', ''User message: \"'' @ userMessage @ ''\"'')]
             \<lparr>temperature = 3 / 10, maxTokens = 300\<rparr> of
        Inl e \<Rightarrow> Inl e
      | Inr result \<Rightarrow>
          (case jsonMatch (completion_content result) of
             Some j \<Rightarrow> JSON_parse j
           | None \<Rightarrow> Inr general_question))"

definition analyzeIntent ::
  "llm_provider \<Rightarrow> json_parser \<Rightarrow> string \<Rightarrow> chat_message list \<Rightarrow> agent_intent" where
  "analyzeIntent generateCompletion JSON_parse userMessage history =
     (case analyzeIntent_try generateCompletion JSON_parse userMessage of
        Inr i \<Rightarrow> i
      | Inl e \<Rightarrow> fallbackIntent userMessage)"

definition extractToolParameters ::
  "string \<Rightarrow> agent_intent \<Rightarrow> call_context \<Rightarrow> (string \<times> jsval) list" where
  "extractToolParameters toolName i ctx =
     (let params = parameters i;
          params = (case (if truthy_str (ctx_cartId ctx) then ctx_cartId ctx else None) of
                      Some c \<Rightarrow> AList.update ''cartId'' (JStr c) params
                    | None \<Rightarrow> params)
      in if toolName = ''search_products'' \<and> \<not> truthy (obj_get params ''query'')
         then AList.update ''query''
                (let q = obj_get (parameters i) ''query'' in if truthy q then q else JStr [])
                params
         else params)"

record tool_outcome = tool_result +
  toolName :: string

text \<open>
  What \<open>executeTools\<close> pushes for a tool: the adapter's result under the tool's name, or,
  from the \<open>catch\<close>, a failure with the message of what was thrown.
\<close>

fun outcome_of :: "string \<Rightarrow> js_error + tool_result \<Rightarrow> tool_outcome" where
  "outcome_of t (Inr r) =
     \<lparr>success = success r, data = data r, error = error r, message = message r, toolName = t\<rparr>"
| "outcome_of t (Inl e) =
     \<lparr>success = False, data = JUndefined, error = Some (error_message e), message = None,
      toolName = t\<rparr>"

text \<open>
  The loop of \<open>executeTools\<close>: one tool after the other, each call awaited before the
  next begins, the world \<open>w\<close> handed from one call to the next.
\<close>

fun executeTools_loop ::
  "'w tool_exec_named \<Rightarrow> agent_intent \<Rightarrow> call_context \<Rightarrow> string list \<Rightarrow> tool_outcome list \<Rightarrow> 'w
     \<Rightarrow> tool_outcome list \<times> 'w" where
  "executeTools_loop adapter i ctx [] results w = (results, w)"
| "executeTools_loop adapter i ctx (t # rest) results w =
     (case adapter t (extractToolParameters t i ctx) ctx w of
        (r, w') \<Rightarrow> executeTools_loop adapter i ctx rest (results @ [outcome_of t r]) w')"

definition executeTools ::
  "'w tool_exec_named \<Rightarrow> agent_intent \<Rightarrow> call_context \<Rightarrow> 'w \<Rightarrow> tool_outcome list \<times> 'w" where
  "executeTools adapter i ctx w = executeTools_loop adapter i ctx (suggestedTools i) [] w"

text \<open>\<open>JSON.stringify(r.data, null, 2)\<close> is the parameter \<open>stringify\<close>.\<close>

definition toolContext :: "(jsval \<Rightarrow> string) \<Rightarrow> tool_outcome list \<Rightarrow> string" where
  "toolContext stringify toolResults =
     join ''\<newline>\<newline>''
       (map (\<lambda>r. if success r
                  then ''Tool: '' @ toolName r @ ''\<newline>Result: '' @ stringify (data r)
                  else ''Tool: '' @ toolName r @ ''\<newline>Error: '' @
                       (case error r of None \<Rightarrow> ''undefined'' | Some e \<Rightarrow> e))
          toolResults)"

definition generateResponseWithTools ::
  "llm_provider \<Rightarrow> (jsval \<Rightarrow> string) \<Rightarrow> string \<Rightarrow> tool_outcome list \<Rightarrow> chat_message list
     \<Rightarrow> js_error + completion" where
  "generateResponseWithTools generateCompletion stringify userMessage toolResults history =
     generateCompletion
       ([(''system'', systemPrompt)] @
        map (\<lambda>msg. (role msg, content msg)) (slice history (- 6)) @
        [(''user'',
          ''Based on the tool results, provide a helpful response.\<newline>'' @
          ''\<newline>'' @
          ''User's question: \"'' @ userMessage @ ''\"\<newline>'' @
          ''\<newline>'' @
          ''Tool Results:\<newline>'' @
          toolContext stringify toolResults @ ''\<newline>'' @
          ''\<newline>'' @
          ''Guidelines:\<newline>'' @
          ''- Be conversational and natural\<newline>'' @
          ''- Summarize the key information\<newline>'' @
          ''- Format product information clearly\<newline>'' @
          ''- Suggest next steps if appropriate\<newline>'' @
          ''- Don't just repeat the data, interpret it for the user'')])
       \<lparr>temperature = 7 / 10, maxTokens = 800\<rparr>"

definition generateDirectResponse ::
  "llm_provider \<Rightarrow> string \<Rightarrow> chat_message list \<Rightarrow> js_error + completion" where
  "generateDirectResponse generateCompletion userMessage history =
     generateCompletion
       ([(''system'', systemPrompt)] @
        map (\<lambda>msg. (role msg, content msg)) (slice history (- 10)) @
        [(''user'', userMessage)])
       \<lparr>temperature = 7 / 10, maxTokens = 600\<rparr>"

record turn_result =
  tr_response :: string
  tr_toolsUsed :: "string list"
  tr_intent :: string
  tr_usage :: jsval

definition processMessage ::
  "llm_provider \<Rightarrow> json_parser \<Rightarrow> (jsval \<Rightarrow> string) \<Rightarrow> 'w tool_exec_named \<Rightarrow> string
     \<Rightarrow> chat_message list \<Rightarrow> call_context \<Rightarrow> 'w \<Rightarrow> (js_error + turn_result) \<times> 'w" where
  "processMessage generateCompletion JSON_parse stringify adapter userMessage
       history ctx w =
     (let i = analyzeIntent generateCompletion JSON_parse userMessage history
      in if requiresTools i
         then (case executeTools adapter i ctx w of
                 (toolResults, w') \<Rightarrow>
                   (case generateResponseWithTools generateCompletion stringify userMessage
                           toolResults history of
                      Inl e \<Rightarrow> (Inl e, w')
                    | Inr response \<Rightarrow>
                        (Inr \<lparr>tr_response = completion_content response,
                              tr_toolsUsed = map toolName toolResults,
                              tr_intent = intent_type i,
                              tr_usage = usage response\<rparr>, w')))
         else (case generateDirectResponse generateCompletion userMessage history of
                 Inl e \<Rightarrow> (Inl e, w)
               | Inr response \<Rightarrow>
                   (Inr \<lparr>tr_response = completion_content response,
                         tr_toolsUsed = [],
                         tr_intent = intent_type i,
                         tr_usage = usage response\<rparr>, w)))"

section \<open>Operations of the session store, as data\<close>

text \<open>
  The public operations of \<open>SessionManager\<close>, so that a property can speak of any one of
  them.  \<open>run_op\<close> keeps the manager an operation leaves behind, whether it returned or
  threw.
\<close>

datatype store_op =
    GetOrCreateSession "string option" "string option" "string option" string
  | AddMessage string string string msg_metadata
  | GetHistory string "int option"
  | UpdateCartId string "string option"
  | ClearHistory string
  | DeleteSession string
  | CleanupOldSessions "int option"

fun run_op :: "'d manager \<Rightarrow> int \<Rightarrow> store_op \<Rightarrow> 'd manager" where
  "run_op m now (GetOrCreateSession sid token cart uuid) =
     snd (getOrCreateSession m sid token cart now uuid)"
| "run_op m now (AddMessage sid r c metadata) = snd (addMessage m sid r c metadata now)"
| "run_op m now (GetHistory sid limit) = snd (getHistory m sid limit)"
| "run_op m now (UpdateCartId sid cart) = snd (updateCartId m sid cart now)"
| "run_op m now (ClearHistory sid) = snd (clearHistory m sid now)"
| "run_op m now (DeleteSession sid) = deleteSession m sid"
| "run_op m now (CleanupOldSessions maxAgeHours) = cleanupOldSessions m maxAgeHours now"

text \<open>\<open>uuidv4()\<close> returns an id no session of the cache has.\<close>

fun fresh_uuid :: "'d manager \<Rightarrow> store_op \<Rightarrow> bool" where
  "fresh_uuid m (GetOrCreateSession sid token cart uuid) = (map_of (sessions m) uuid = None)"
| "fresh_uuid m other = True"

text \<open>
  Every session sits in the cache under its own id, and the storage answers a request for
  an id with a session of that id.
\<close>

definition cache_keyed :: "'d manager \<Rightarrow> bool" where
  "cache_keyed m = list_all (\<lambda>(k, s). sessionId s = k) (sessions m)"

definition storage_keyed :: "'d manager \<Rightarrow> bool" where
  "storage_keyed m =
     (case storage m of
        None \<Rightarrow> True
      | Some st \<Rightarrow> (\<forall>k d s d'. st_get st k d = (Inr (Some s), d') \<longrightarrow> sessionId s = k))"

text \<open>
  A run of operations, each with the time it happens at; and the condition that every
  session is logged in exactly when it has a token, which \<open>createSession\<close> and the
  upgrade in \<open>getOrCreateSession\<close> establish.
\<close>

fun run_ops :: "'d manager \<Rightarrow> (int \<times> store_op) list \<Rightarrow> 'd manager" where
  "run_ops m [] = m"
| "run_ops m ((now, op) # rest) = run_ops (run_op m now op) rest"

definition credentials_consistent :: "'d manager \<Rightarrow> bool" where
  "credentials_consistent m =
     list_all (\<lambda>(k, s). (userType s = LoggedIn) = truthy_str (customerToken s)) (sessions m)"

text \<open>A manager without storage whose cache is keyed and consistent in this sense.\<close>

definition settled :: "'d manager \<Rightarrow> bool" where
  "settled m \<longleftrightarrow> storage m = None \<and> cache_keyed m \<and> credentials_consistent m"

section \<open>Concrete environments\<close>

text \<open>
  A manager without storage, as the chat action builds it, a model that answers with a
  fixed text, a model that is down, and a backend that logs every request it receives and
  hands out the cart \<open>CART-1\<close>.
\<close>

definition in_memory :: "(string \<times> session) list \<Rightarrow> unit manager" where
  "in_memory ss = \<lparr>sessions = ss, storage = None\<rparr>"

definition sample_message :: "nat \<Rightarrow> chat_message" where
  "sample_message n =
     \<lparr>role = ''user'', content = replicate n CHR ''a'', timestamp = int n, toolsUsed = None,
      intent = None\<rparr>"

definition sample_session :: "user_type \<Rightarrow> string option \<Rightarrow> nat \<Rightarrow> session" where
  "sample_session u token n =
     \<lparr>sessionId = ''s1'', userType = u, customerToken = token, cartId = None,
      conversationHistory = map sample_message [0..<n], createdAt = 0, lastActivity = 0\<rparr>"

definition model_replies :: "string \<Rightarrow> llm_provider" where
  "model_replies reply messages options = Inr \<lparr>completion_content = reply, usage = JNull\<rparr>"

definition model_down :: llm_provider where
  "model_down messages options = Inl (Error ''connect ECONNREFUSED'')"

definition cart_intent :: agent_intent where
  "cart_intent =
     \<lparr>intent_type = ''add_to_cart'', requiresTools = True,
      suggestedTools = [''create_cart'', ''add_to_cart''],
      parameters = [(''sku'', JStr ''SHIRT-1'')]\<rparr>"

text \<open>
  \<open>JSON.parse\<close> at two texts, an object with \<open>requiresTools\<close> true and an empty
  \<open>suggestedTools\<close>, and the intent to create a cart and add a shirt to it; any other text
  is rejected.
\<close>

definition inconsistent_reply :: string where
  "inconsistent_reply =
     ''{\"type\":\"greeting\",\"requiresTools\":true,\"suggestedTools\":[],\"parameters\":{}}''"

definition cart_reply :: string where
  "cart_reply =
     ''{\"type\":\"add_to_cart\",\"requiresTools\":true,'' @
     ''\"suggestedTools\":[\"create_cart\",\"add_to_cart\"],'' @
     ''\"parameters\":{\"sku\":\"SHIRT-1\"}}''"

definition parse_reply :: json_parser where
  "parse_reply j =
     (if j = inconsistent_reply
      then Inr \<lparr>intent_type = ''greeting'', requiresTools = True, suggestedTools = [],
                parameters = []\<rparr>
      else if j = cart_reply then Inr cart_intent
      else Inl (Error ''Unexpected token''))"

definition no_stringify :: "jsval \<Rightarrow> string" where
  "no_stringify v = ''null''"

definition logging_backend :: "((gql_doc \<times> jsval) list) magento_client" where
  "logging_backend doc variables token requests =
     (Inr (if doc = CREATE_EMPTY_CART_MUTATION
           then JObj [(''createEmptyCart'', JStr ''CART-1'')] else JNull),
      requests @ [(doc, variables)])"

definition plain_present :: presenter where
  "plain_present tool params d = Inr \<lparr>success = True, data = d, error = None, message = None\<rparr>"

definition no_coerce :: "jsval \<Rightarrow> jsnum" where
  "no_coerce v = NaN"

section \<open>The session manager: history, missing sessions, authentication\<close>

subsection \<open>Loading and saving\<close>

lemma loadSession_Some:
  "loadSession m sid = (Some s, m1) \<Longrightarrow> map_of (sessions m1) sid = Some s"
  by (auto simp: loadSession_def update_conv' split: option.splits prod.splits sum.splits)

lemma loadSession_None:
  "loadSession m sid = (None, m1) \<Longrightarrow> sessions m1 = sessions m \<and> map_of (sessions m) sid = None"
  by (auto simp: loadSession_def split: option.splits prod.splits sum.splits)

lemma loadSession_cached:
  "map_of (sessions m) sid = Some s \<Longrightarrow> loadSession m sid = (Some s, m)"
  by (simp add: loadSession_def)

lemma loadSession_keeps:
  "loadSession m sid = (r, m1) \<Longrightarrow> map_of (sessions m) k = Some x \<Longrightarrow>
     map_of (sessions m1) k = Some x"
  by (auto simp: loadSession_def update_conv' split: option.splits prod.splits sum.splits)

lemma sessions_saveSession:
  "sessions (snd (saveSession m s now)) =
     AList.update (sessionId s) (s\<lparr>lastActivity := now\<rparr>) (sessions m)"
  by (simp add: saveSession_def Let_def split: option.splits prod.splits)

lemma fst_saveSession: "fst (saveSession m s now) = s\<lparr>lastActivity := now\<rparr>"
  by (simp add: saveSession_def Let_def split: option.splits prod.splits)

lemma slice_last_50:
  "length xs > 50 \<Longrightarrow> slice xs (- 50) = drop (length xs - 50) xs"
  by (simp add: slice_def nat_diff_distrib')

subsection \<open>The history is bounded when a message is appended\<close>

text \<open>
  Claim C3.  Appending to a session that resolves always succeeds, and the history stored
  by the append holds at most 50 messages: below 50 the message is added at the end, at 50
  the oldest message is dropped and the new one added.  The bound is in the stored session
  as soon as \<open>addMessage\<close> has returned; reading the history afterwards leaves the manager
  as it is.
\<close>

theorem addMessage_bounds_history:
  assumes "loadSession m sid = (Some s, m1)"
  shows "\<exists>msg s'.
           fst (addMessage m sid r c md now) = Inr msg \<and>
           msg = \<lparr>role = r, content = c, timestamp = now, toolsUsed = md_toolsUsed md,
                  intent = md_intent md\<rparr> \<and>
           map_of (sessions (snd (addMessage m sid r c md now))) (sessionId s) = Some s' \<and>
           length (conversationHistory s') \<le> 50 \<and>
           (length (conversationHistory s) < 50 \<longrightarrow>
              conversationHistory s' = conversationHistory s @ [msg]) \<and>
           (length (conversationHistory s) = 50 \<longrightarrow>
              conversationHistory s' = tl (conversationHistory s) @ [msg]) \<and>
           (\<forall>limit. snd (getHistory (snd (addMessage m sid r c md now)) (sessionId s) limit) =
              snd (addMessage m sid r c md now))"
proof -
  let ?msg = "\<lparr>role = r, content = c, timestamp = now, toolsUsed = md_toolsUsed md,
                intent = md_intent md\<rparr>"
  let ?pushed = "conversationHistory s @ [?msg]"
  let ?h = "if length ?pushed > 50 then slice ?pushed (- 50) else ?pushed"
  let ?s1 = "s\<lparr>conversationHistory := ?h\<rparr>"
  let ?m' = "snd (saveSession m1 ?s1 now)"
  have am: "addMessage m sid r c md now = (Inr ?msg, ?m')"
    using assms by (simp add: addMessage_def Let_def)
  have stored: "map_of (sessions ?m') (sessionId s) = Some (?s1\<lparr>lastActivity := now\<rparr>)"
    by (simp add: sessions_saveSession update_conv')
  have len: "length ?h \<le> 50"
    by (simp add: slice_last_50)
  have small: "length (conversationHistory s) < 50 \<Longrightarrow> ?h = conversationHistory s @ [?msg]"
    by simp
  have full: "length (conversationHistory s) = 50 \<Longrightarrow> ?h = tl (conversationHistory s) @ [?msg]"
    by (cases "conversationHistory s") (simp_all add: slice_last_50)
  have read: "snd (getHistory ?m' (sessionId s) limit) = ?m'" for limit
    using loadSession_cached [OF stored] by (simp add: getHistory_def)
  show ?thesis
    unfolding am fst_conv snd_conv
    using stored len small full read by (intro exI [of _ ?msg] exI [of _ "?s1\<lparr>lastActivity := now\<rparr>"]) simp
qed

text \<open>A session holding 50 messages receives one more.\<close>

theorem addMessage_bounds_history_witness:
  "loadSession (in_memory [(''s1'', sample_session Guest None 50)]) ''s1'' =
     (Some (sample_session Guest None 50), in_memory [(''s1'', sample_session Guest None 50)]) \<and>
   length (conversationHistory (sample_session Guest None 50)) = 50 \<and>
   (\<exists>msg s'.
      fst (addMessage (in_memory [(''s1'', sample_session Guest None 50)]) ''s1'' ''user'' ''hello''
             \<lparr>md_toolsUsed = None, md_intent = None\<rparr> 7) = Inr msg \<and>
      map_of (sessions (snd (addMessage (in_memory [(''s1'', sample_session Guest None 50)]) ''s1''
             ''user'' ''hello'' \<lparr>md_toolsUsed = None, md_intent = None\<rparr> 7))) ''s1'' = Some s' \<and>
      length (conversationHistory s') \<le> 50 \<and>
      conversationHistory s' = tl (conversationHistory (sample_session Guest None 50)) @ [msg])"
proof -
  have l: "loadSession (in_memory [(''s1'', sample_session Guest None 50)]) ''s1'' =
     (Some (sample_session Guest None 50), in_memory [(''s1'', sample_session Guest None 50)])"
    by (simp add: loadSession_def in_memory_def)
  have n: "length (conversationHistory (sample_session Guest None 50)) = 50"
    by (simp add: sample_session_def)
  have i: "sessionId (sample_session Guest None 50) = ''s1''"
    by (simp add: sample_session_def)
  from addMessage_bounds_history [OF l, of "''user''" "''hello''"
      "\<lparr>md_toolsUsed = None, md_intent = None\<rparr>" 7]
  show ?thesis unfolding i using l n by auto 
qed

subsection \<open>Operations on a session that does not resolve\<close>

text \<open>
  Claim C5 asks all of \<open>addMessage\<close>, \<open>updateCartId\<close> and \<open>clearHistory\<close> to fail on an
  unknown id.  \<open>clearHistory\<close> does not: on a manager without any session it returns
  normally.
\<close>

theorem missing_session_counterexample:
  "loadSession (in_memory []) ''ghost'' = (None, in_memory []) \<and>
   clearHistory (in_memory []) ''ghost'' 0 = (Inr (), in_memory [])"
  by (simp add: loadSession_def clearHistory_def in_memory_def)

text \<open>
  Claim C5, amended.  When the id does not resolve, \<open>addMessage\<close> and \<open>updateCartId\<close>
  throw \<open>Session not found: <id>\<close>, \<open>clearHistory\<close> returns without doing anything, and
  none of the three adds a session to the cache.
\<close>

theorem missing_session_errors:
  assumes "loadSession m sid = (None, m1)"
  shows "addMessage m sid r c md now = (Inl (Error (''Session not found: '' @ sid)), m1) \<and>
         updateCartId m sid cart now = (Inl (Error (''Session not found: '' @ sid)), m1) \<and>
         clearHistory m sid now = (Inr (), m1) \<and>
         sessions m1 = sessions m"
  using assms loadSession_None [OF assms]
  by (simp add: addMessage_def updateCartId_def clearHistory_def not_found_def)

text \<open>The three operations on the id \<open>ghost\<close> of an empty manager.\<close>

theorem missing_session_errors_witness:
  "loadSession (in_memory []) ''ghost'' = (None, in_memory []) \<and>
   addMessage (in_memory []) ''ghost'' ''user'' ''hello'' \<lparr>md_toolsUsed = None, md_intent = None\<rparr> 7 =
     (Inl (Error ''Session not found: ghost''), in_memory []) \<and>
   updateCartId (in_memory []) ''ghost'' (Some ''CART-1'') 7 =
     (Inl (Error ''Session not found: ghost''), in_memory []) \<and>
   sessions (in_memory [] :: unit manager) = []"
proof -
  have l: "loadSession (in_memory []) ''ghost'' = (None, in_memory [])"
    by (simp add: loadSession_def in_memory_def)
  from missing_session_errors [OF l, of "''user''" "''hello''"
      "\<lparr>md_toolsUsed = None, md_intent = None\<rparr>" 7 "Some ''CART-1''"]
  show ?thesis using l by (simp add: in_memory_def)
qed

subsection \<open>Reading the recent history\<close>

text \<open>
  For a positive \<open>limit\<close>, and for the default, \<open>getHistory\<close> returns the last
  \<open>min limit (length history)\<close> messages in their order; for an id that does not resolve
  it returns the empty list.
\<close>

lemma slice_negative:
  "0 < l \<Longrightarrow> slice xs (- l) = drop (length xs - nat l) xs"
  by (auto simp: slice_def nat_diff_distrib' intro!: arg_cong [where f = "\<lambda>n. drop n xs"])

lemma getHistory_positive:
  assumes "loadSession m sid = (Some s, m1)" and "0 < l"
  shows "fst (getHistory m sid (Some l)) = drop (length (conversationHistory s) - nat l) (conversationHistory s)"
    and "length (fst (getHistory m sid (Some l))) = min (nat l) (length (conversationHistory s))"
  using assms by (auto simp: getHistory_def slice_negative)

lemma getHistory_default:
  assumes "loadSession m sid = (Some s, m1)"
  shows "fst (getHistory m sid None) =
           drop (length (conversationHistory s) - 10) (conversationHistory s)"
  using assms slice_negative [of 10 "conversationHistory s"] by (simp add: getHistory_def)

lemma getHistory_missing:
  "loadSession m sid = (None, m1) \<Longrightarrow> getHistory m sid limit = ([], m1)"
  by (simp add: getHistory_def)

text \<open>
  Claim C10.  With \<open>limit = 0\<close> the source computes \<open>slice(-0)\<close>, which is \<open>slice(0)\<close>:
  a session with three messages returns all three, where the claim has
  \<open>min 0 3 = 0\<close> messages.
\<close>

theorem getHistory_limit_zero:
  "fst (getHistory (in_memory [(''s1'', sample_session Guest None 3)]) ''s1'' (Some 0)) =
     [sample_message 0, sample_message 1, sample_message 2]"
  by (simp add: getHistory_def loadSession_def in_memory_def sample_session_def slice_def
        upt_rec numeral_2_eq_2)

subsection \<open>An authenticated session stays authenticated\<close>

lemma cache_keyedD:
  "cache_keyed m \<Longrightarrow> map_of (sessions m) k = Some s \<Longrightarrow> sessionId s = k"
  by (auto simp: cache_keyed_def list_all_iff dest!: map_of_SomeD)

lemma loadSession_keyed:
  "cache_keyed m \<Longrightarrow> storage_keyed m \<Longrightarrow> loadSession m sid = (Some s, m1) \<Longrightarrow>
     sessionId s = sid"
proof (cases "map_of (sessions m) sid")
  case (Some x)
  assume "cache_keyed m" "loadSession m sid = (Some s, m1)"
  then show ?thesis using Some by (auto simp: loadSession_def dest: cache_keyedD)
next
  case None
  assume sk: "storage_keyed m" and l: "loadSession m sid = (Some s, m1)"
  from l None obtain st d where st: "storage m = Some st"
    and g: "st_get st sid (st_state st) = (Inr (Some s), d)"
    by (auto simp: loadSession_def split: option.splits prod.splits sum.splits)
  from sk st have "\<forall>k d s d'. st_get st k d = (Inr (Some s), d') \<longrightarrow> sessionId s = k"
    by (simp add: storage_keyed_def)
  with g show ?thesis by blast
qed

lemma map_of_saveSession:
  "map_of (sessions (snd (saveSession m s now))) k =
     (if k = sessionId s then Some (s\<lparr>lastActivity := now\<rparr>) else map_of (sessions m) k)"
  by (simp add: sessions_saveSession update_conv')

lemma map_of_deleteSession:
  "map_of (sessions (deleteSession m sid)) k = (if k = sid then None else map_of (sessions m) k)"
  by (simp add: deleteSession_def Let_def delete_conv' split: option.splits prod.splits)

lemma map_of_cleanup_loop:
  "map_of (sessions (cleanup_loop m cutoff xs)) k = None \<or>
   map_of (sessions (cleanup_loop m cutoff xs)) k = map_of (sessions m) k"
proof (induction xs arbitrary: m)
  case Nil
  then show ?case by simp
next
  case (Cons x xs)
  obtain sid s where x: "x = (sid, s)" by (cases x)
  show ?case
    using Cons.IH [of "if lastActivity s < cutoff then deleteSession m sid else m"]
    by (auto simp: x map_of_deleteSession split: if_splits)
qed

lemma step_keeps_authenticated:
  assumes ck: "cache_keyed m" and sk: "storage_keyed m"
    and fresh: "fresh_uuid m op"
    and cached: "map_of (sessions m) k = Some s"
    and auth: "userType s = LoggedIn" "truthy_str (customerToken s)"
  shows "case map_of (sessions (run_op m now op)) k of
           None \<Rightarrow> True
         | Some s' \<Rightarrow> userType s' = LoggedIn \<and> customerToken s' = customerToken s"
proof (cases op)
  case (GetOrCreateSession sid token cart uuid)
  have nk: "uuid \<noteq> k" using fresh cached GetOrCreateSession by auto
  show ?thesis
  proof (cases "truthy_str sid")
    case False
    then show ?thesis
      using cached auth nk GetOrCreateSession
      by (simp add: getOrCreateSession_def createSession_def map_of_saveSession)
  next
    case True
    then obtain i where sid: "sid = Some i" by (cases sid) auto
    obtain r m1 where l: "loadSession m i = (r, m1)" by (cases "loadSession m i")
    have c1: "map_of (sessions m1) k = Some s" using loadSession_keeps [OF l cached] .
    show ?thesis
    proof (cases r)
      case None
      then show ?thesis
        using True sid l c1 auth nk GetOrCreateSession
        by (simp add: getOrCreateSession_def createSession_def map_of_saveSession)
    next
      case (Some ex)
      have exid: "sessionId ex = i" using loadSession_keyed [OF ck sk] l Some by simp
      have same: "i = k \<Longrightarrow> ex = s" using loadSession_Some l Some c1 by fastforce
      show ?thesis
        using True sid l c1 auth Some exid same GetOrCreateSession
        by (auto simp: getOrCreateSession_def map_of_saveSession)
    qed
  qed
next
  case (AddMessage sid r c md)
  obtain x m1 where l: "loadSession m sid = (x, m1)" by (cases "loadSession m sid")
  have c1: "map_of (sessions m1) k = Some s" using loadSession_keeps [OF l cached] .
  show ?thesis
  proof (cases x)
    case None
    then show ?thesis using l c1 auth AddMessage by (simp add: addMessage_def)
  next
    case (Some ex)
    have exid: "sessionId ex = sid" using loadSession_keyed [OF ck sk] l Some by simp
    have same: "sid = k \<Longrightarrow> ex = s" using loadSession_Some l Some c1 by fastforce
    show ?thesis
      using l c1 auth Some exid same AddMessage
      by (auto simp: addMessage_def Let_def map_of_saveSession)
  qed
next
  case (GetHistory sid limit)
  obtain x m1 where l: "loadSession m sid = (x, m1)" by (cases "loadSession m sid")
  have c1: "map_of (sessions m1) k = Some s" using loadSession_keeps [OF l cached] .
  show ?thesis using l c1 auth GetHistory by (cases x) (simp_all add: getHistory_def)
next
  case (UpdateCartId sid cart)
  obtain x m1 where l: "loadSession m sid = (x, m1)" by (cases "loadSession m sid")
  have c1: "map_of (sessions m1) k = Some s" using loadSession_keeps [OF l cached] .
  show ?thesis
  proof (cases x)
    case None
    then show ?thesis using l c1 auth UpdateCartId by (simp add: updateCartId_def)
  next
    case (Some ex)
    have exid: "sessionId ex = sid" using loadSession_keyed [OF ck sk] l Some by simp
    have same: "sid = k \<Longrightarrow> ex = s" using loadSession_Some l Some c1 by fastforce
    show ?thesis
      using l c1 auth Some exid same UpdateCartId
      by (auto simp: updateCartId_def map_of_saveSession)
  qed
next
  case (ClearHistory sid)
  obtain x m1 where l: "loadSession m sid = (x, m1)" by (cases "loadSession m sid")
  have c1: "map_of (sessions m1) k = Some s" using loadSession_keeps [OF l cached] .
  show ?thesis
  proof (cases x)
    case None
    then show ?thesis using l c1 auth ClearHistory by (simp add: clearHistory_def)
  next
    case (Some ex)
    have exid: "sessionId ex = sid" using loadSession_keyed [OF ck sk] l Some by simp
    have same: "sid = k \<Longrightarrow> ex = s" using loadSession_Some l Some c1 by fastforce
    show ?thesis
      using l c1 auth Some exid same ClearHistory
      by (auto simp: clearHistory_def map_of_saveSession)
  qed
next
  case (DeleteSession sid)
  then show ?thesis using cached auth by (simp add: map_of_deleteSession)
next
  case (CleanupOldSessions maxAgeHours)
  define cutoff where "cutoff = now - (case maxAgeHours of None \<Rightarrow> 24 | Some h \<Rightarrow> h) * 60 * 60 * 1000"
  have "map_of (sessions (cleanup_loop m cutoff (sessions m))) k = None \<or>
        map_of (sessions (cleanup_loop m cutoff (sessions m))) k = Some s"
    using map_of_cleanup_loop [of m cutoff "sessions m" k] cached by simp
  then show ?thesis
    using auth CleanupOldSessions unfolding cutoff_def
    by (auto simp: cleanupOldSessions_def)
qed

lemma list_all_update:
  "list_all P xs \<Longrightarrow> P (k, v) \<Longrightarrow> list_all P (AList.update k v xs)"
  by (induction xs) auto

lemma loadSession_cache_keyed:
  assumes "cache_keyed m" "storage_keyed m" "loadSession m sid = (r, m1)"
  shows "cache_keyed m1"
proof (cases r)
  case None
  then show ?thesis using assms loadSession_None [of m sid m1] by (simp add: cache_keyed_def)
next
  case (Some s)
  have i: "sessionId s = sid" using loadSession_keyed assms Some by blast
  have "sessions m1 = sessions m \<or> sessions m1 = AList.update sid s (sessions m)"
    using assms(3) Some
    by (auto simp: loadSession_def split: option.splits prod.splits sum.splits)
  then show ?thesis
    using assms(1) i by (auto simp: cache_keyed_def intro: list_all_update)
qed

lemma loadSession_storage:
  "loadSession m sid = (r, m1) \<Longrightarrow>
     storage m1 = storage m \<or> (\<exists>st d. storage m = Some st \<and> storage m1 = Some (st\<lparr>st_state := d\<rparr>))"
  by (auto simp: loadSession_def split: option.splits prod.splits sum.splits)

lemma loadSession_storage_keyed:
  assumes "storage_keyed m" "loadSession m sid = (r, m1)"
  shows "storage_keyed m1"
  using loadSession_storage [OF assms(2)]
proof
  assume "storage m1 = storage m"
  then show ?thesis using assms(1) by (simp add: storage_keyed_def)
next
  assume "\<exists>st d. storage m = Some st \<and> storage m1 = Some (st\<lparr>st_state := d\<rparr>)"
  then obtain st d where "storage m = Some st" "storage m1 = Some (st\<lparr>st_state := d\<rparr>)"
    by blast
  then show ?thesis using assms(1) by (simp add: storage_keyed_def)
qed

text \<open>
  The manager the chat action builds has no storage.  Every state it reaches from the
  empty cache keeps each session under its own id, with a token exactly when it is logged
  in.
\<close>

lemma loadSession_in_memory:
  "storage m = None \<Longrightarrow> loadSession m sid = (map_of (sessions m) sid, m)"
  by (simp add: loadSession_def split: option.splits)

lemma saveSession_in_memory:
  "storage m = None \<Longrightarrow>
     saveSession m s now =
       (s\<lparr>lastActivity := now\<rparr>,
        m\<lparr>sessions := AList.update (sessionId s) (s\<lparr>lastActivity := now\<rparr>) (sessions m)\<rparr>)"
  by (simp add: saveSession_def Let_def)

lemma list_all_delete: "list_all P xs \<Longrightarrow> list_all P (AList.delete k xs)"
  by (induction xs) auto

lemma settledI:
  "storage m = None \<Longrightarrow> list_all (\<lambda>(k, s). sessionId s = k) (sessions m) \<Longrightarrow>
   list_all (\<lambda>(k, s). (userType s = LoggedIn) = truthy_str (customerToken s)) (sessions m) \<Longrightarrow>
   settled m"
  by (simp add: settled_def cache_keyed_def credentials_consistent_def)

lemma settled_save:
  assumes "settled m" "(userType s = LoggedIn) = truthy_str (customerToken s)"
  shows "settled (snd (saveSession m s now))"
  using assms
  by (auto simp: settled_def cache_keyed_def credentials_consistent_def saveSession_in_memory
      intro!: list_all_update)

lemma settled_lookup:
  assumes "settled m" "map_of (sessions m) k = Some s"
  shows "sessionId s = k" "(userType s = LoggedIn) = truthy_str (customerToken s)"
  using assms
  by (auto simp: settled_def cache_keyed_def credentials_consistent_def list_all_iff
      dest!: map_of_SomeD)

lemma settled_delete: "settled m \<Longrightarrow> settled (deleteSession m sid)"
  by (simp add: settled_def cache_keyed_def credentials_consistent_def deleteSession_def
      list_all_delete)

lemma settled_cleanup_loop: "settled m \<Longrightarrow> settled (cleanup_loop m cutoff xs)"
proof (induction xs arbitrary: m)
  case Nil
  then show ?case by simp
next
  case (Cons x xs)
  obtain sid s where x: "x = (sid, s)" by (cases x)
  show ?case unfolding x using Cons by (simp add: settled_delete)
qed

lemma settled_create: "settled m \<Longrightarrow> settled (snd (createSession m token cart now uuid))"
  unfolding createSession_def by (rule settled_save) (cases token; simp)+

lemma settled_step:
  assumes "settled m"
  shows "settled (run_op m now op)"
proof -
  have st: "storage m = None" using assms by (simp add: settled_def)
  note load = loadSession_in_memory [OF st]
  show ?thesis
  proof (cases op)
    case (GetOrCreateSession sid token cart uuid)
    show ?thesis
    proof (cases "truthy_str sid")
      case False
      then show ?thesis
        using assms GetOrCreateSession by (simp add: getOrCreateSession_def settled_create)
    next
      case True
      then obtain i where i: "sid = Some i" by (cases sid) auto
      show ?thesis
      proof (cases "map_of (sessions m) i")
        case None
        then show ?thesis
          using assms True i GetOrCreateSession
          by (simp add: getOrCreateSession_def load settled_create)
      next
        case (Some ex)
        show ?thesis
          using assms True i Some GetOrCreateSession settled_lookup [OF assms Some]
          by (auto simp: getOrCreateSession_def load intro!: settled_save)
      qed
    qed
  next
    case (AddMessage sid r c md)
    show ?thesis
    proof (cases "map_of (sessions m) sid")
      case None
      then show ?thesis using assms AddMessage by (simp add: addMessage_def load)
    next
      case (Some ex)
      show ?thesis
        using assms Some AddMessage settled_lookup [OF assms Some]
        by (auto simp: addMessage_def load Let_def intro!: settled_save)
    qed
  next
    case (GetHistory sid limit)
    then show ?thesis
      using assms by (cases "map_of (sessions m) sid") (simp_all add: getHistory_def load)
  next
    case (UpdateCartId sid cart)
    show ?thesis
    proof (cases "map_of (sessions m) sid")
      case None
      then show ?thesis using assms UpdateCartId by (simp add: updateCartId_def load)
    next
      case (Some ex)
      show ?thesis
        using assms Some UpdateCartId settled_lookup [OF assms Some]
        by (auto simp: updateCartId_def load intro!: settled_save)
    qed
  next
    case (ClearHistory sid)
    show ?thesis
    proof (cases "map_of (sessions m) sid")
      case None
      then show ?thesis using assms ClearHistory by (simp add: clearHistory_def load)
    next
      case (Some ex)
      show ?thesis
        using assms Some ClearHistory settled_lookup [OF assms Some]
        by (auto simp: clearHistory_def load intro!: settled_save)
    qed
  next
    case (DeleteSession sid)
    then show ?thesis using assms by (simp add: settled_delete)
  next
    case (CleanupOldSessions maxAgeHours)
    then show ?thesis using assms by (simp add: cleanupOldSessions_def settled_cleanup_loop)
  qed
qed

lemma settled_run: "settled m \<Longrightarrow> settled (run_ops m ops)"
proof (induction ops arbitrary: m)
  case Nil
  then show ?case by simp
next
  case (Cons x xs)
  obtain now op where x: "x = (now, op)" by (cases x)
  show ?case unfolding x using Cons by (simp add: settled_step)
qed

lemma in_memory_run_wellformed:
  "storage (run_ops (in_memory []) ops) = None \<and>
   cache_keyed (run_ops (in_memory []) ops) \<and>
   storage_keyed (run_ops (in_memory []) ops) \<and>
   credentials_consistent (run_ops (in_memory []) ops)"
proof -
  have "settled (in_memory [] :: unit manager)"
    by (simp add: settled_def in_memory_def cache_keyed_def credentials_consistent_def)
  then have "settled (run_ops (in_memory []) ops)" by (rule settled_run)
  then show ?thesis by (simp add: settled_def storage_keyed_def)
qed

lemma createSession_userType:
  "userType (fst (createSession m token cart now uuid)) = LoggedIn \<longleftrightarrow>
     truthy_str (customerToken (fst (createSession m token cart now uuid)))"
  by (cases token) (simp_all add: createSession_def fst_saveSession)

text \<open>
  Claim C4.  Take a manager whose sessions sit under their own ids and whose storage
  answers with the session asked for (as shown above, the manager without storage is always
  so), and a session that resolves under \<open>k\<close>, is logged in and has its token.  Then \<open>getOrCreateSession\<close> on \<open>k\<close>, with any token or none,
  returns that very session, and after any single operation of the manager, \<open>uuidv4()\<close>
  returning an unused id, the session under \<open>k\<close> is either gone or still logged in with
  the same token.
\<close>

theorem authenticated_never_reverts:
  assumes keyed: "cache_keyed m" "storage_keyed m"
    and existing: "loadSession m k = (Some s, m1)" "k \<noteq> []"
    and auth: "userType s = LoggedIn" "truthy_str (customerToken s)"
  shows "getOrCreateSession m (Some k) token cart now uuid = (s, m1) \<and>
         (\<forall>op t. fresh_uuid m1 op \<longrightarrow>
            (case map_of (sessions (run_op m1 t op)) k of
               None \<Rightarrow> True
             | Some s' \<Rightarrow> userType s' = LoggedIn \<and> customerToken s' = customerToken s))"
proof
  show "getOrCreateSession m (Some k) token cart now uuid = (s, m1)"
    using existing auth by (simp add: getOrCreateSession_def)
next
  have ck: "cache_keyed m1" using loadSession_cache_keyed keyed existing(1) by blast
  have sk: "storage_keyed m1" using loadSession_storage_keyed keyed(2) existing(1) by blast
  have cached: "map_of (sessions m1) k = Some s" using loadSession_Some existing(1) by blast
  show "\<forall>op t. fresh_uuid m1 op \<longrightarrow>
            (case map_of (sessions (run_op m1 t op)) k of
               None \<Rightarrow> True
             | Some s' \<Rightarrow> userType s' = LoggedIn \<and> customerToken s' = customerToken s)"
    using step_keeps_authenticated [OF ck sk _ cached auth] by blast
qed

text \<open>A logged-in session, and a request without session id that creates a second one.\<close>

theorem authenticated_never_reverts_witness:
  "cache_keyed (in_memory [(''s1'', sample_session LoggedIn (Some ''tok'') 2)]) \<and>
   storage_keyed (in_memory [(''s1'', sample_session LoggedIn (Some ''tok'') 2)]) \<and>
   loadSession (in_memory [(''s1'', sample_session LoggedIn (Some ''tok'') 2)]) ''s1'' =
     (Some (sample_session LoggedIn (Some ''tok'') 2),
      in_memory [(''s1'', sample_session LoggedIn (Some ''tok'') 2)]) \<and>
   userType (sample_session LoggedIn (Some ''tok'') 2) = LoggedIn \<and>
   truthy_str (customerToken (sample_session LoggedIn (Some ''tok'') 2)) \<and>
   getOrCreateSession (in_memory [(''s1'', sample_session LoggedIn (Some ''tok'') 2)])
     (Some ''s1'') None None 9 ''u2'' =
     (sample_session LoggedIn (Some ''tok'') 2,
      in_memory [(''s1'', sample_session LoggedIn (Some ''tok'') 2)]) \<and>
   fresh_uuid (in_memory [(''s1'', sample_session LoggedIn (Some ''tok'') 2)])
     (GetOrCreateSession None None None ''u2'') \<and>
   (case map_of (sessions (run_op (in_memory [(''s1'', sample_session LoggedIn (Some ''tok'') 2)]) 9
                    (GetOrCreateSession None None None ''u2''))) ''s1'' of
      None \<Rightarrow> True
    | Some s' \<Rightarrow> userType s' = LoggedIn \<and> customerToken s' = Some ''tok'')"
proof -
  let ?s = "sample_session LoggedIn (Some ''tok'') 2"
  let ?m = "in_memory [(''s1'', ?s)]"
  have ck: "cache_keyed ?m" by (simp add: cache_keyed_def in_memory_def sample_session_def)
  have sk: "storage_keyed ?m" by (simp add: storage_keyed_def in_memory_def)
  have l: "loadSession ?m ''s1'' = (Some ?s, ?m)" by (simp add: loadSession_def in_memory_def)
  have k: "''s1'' \<noteq> []" by simp
  have u: "userType ?s = LoggedIn" by (simp add: sample_session_def)
  have t: "truthy_str (customerToken ?s)" by (simp add: sample_session_def)
  have tk: "customerToken ?s = Some ''tok''" by (simp add: sample_session_def)
  have f: "fresh_uuid ?m (GetOrCreateSession None None None ''u2'')" by (simp add: in_memory_def)
  from authenticated_never_reverts [OF ck sk l k u t, of None None 9 "''u2''"] f
  show ?thesis using ck sk l u t unfolding tk by blast
qed

section \<open>The intent classifier\<close>

subsection \<open>Substring search and the brace match\<close>

lemma startsWith_iff: "startsWith s t \<longleftrightarrow> (\<exists>c. s = t @ c)"
  by (induction s t rule: startsWith.induct) auto

lemma str_includes_iff: "str_includes s t \<longleftrightarrow> (\<exists>a c. s = a @ t @ c)"
proof (induction s)
  case Nil
  then show ?case by simp
next
  case (Cons x xs)
  show ?case
  proof
    assume "str_includes (x # xs) t"
    then consider "startsWith (x # xs) t" | "str_includes xs t" by auto
    then show "\<exists>a c. x # xs = a @ t @ c"
    proof cases
      case 1
      then obtain c where "x # xs = t @ c" using startsWith_iff by blast
      then have "x # xs = [] @ t @ c" by simp
      then show ?thesis by blast
    next
      case 2
      then obtain a c where "xs = a @ t @ c" using Cons.IH by blast
      then have "x # xs = (x # a) @ t @ c" by simp
      then show ?thesis by blast
    qed
  next
    assume "\<exists>a c. x # xs = a @ t @ c"
    then obtain a c where e: "x # xs = a @ t @ c" by blast
    show "str_includes (x # xs) t"
    proof (cases a)
      case Nil
      then have "startsWith (x # xs) t" using e startsWith_iff by auto
      then show ?thesis by simp
    next
      case (Cons y ys)
      then have "xs = ys @ t @ c" using e by simp
      then have "str_includes xs t" using Cons.IH by blast
      then show ?thesis by simp
    qed
  qed
qed

lemma dropWhile_upto:
  "\<exists>p. dropWhile (\<lambda>c. c \<noteq> x) (a @ x # r) = x # p @ r"
proof (induction a)
  case Nil
  have "dropWhile (\<lambda>c. c \<noteq> x) ([] @ x # r) = x # [] @ r" by simp
  then show ?case by blast
next
  case (Cons y ys)
  show ?case
  proof (cases "y = x")
    case True
    then have "dropWhile (\<lambda>c. c \<noteq> x) ((y # ys) @ x # r) = x # (ys @ [x]) @ r" by simp
    then show ?thesis by blast
  next
    case False
    then show ?thesis using Cons.IH by simp
  qed
qed

lemma jsonMatch_None_iff:
  "jsonMatch s = None \<longleftrightarrow> \<not> (\<exists>a b c. s = a @ CHR ''{'' # b @ CHR ''}'' # c)"
proof
  assume n: "jsonMatch s = None"
  show "\<not> (\<exists>a b c. s = a @ CHR ''{'' # b @ CHR ''}'' # c)"
  proof
    assume "\<exists>a b c. s = a @ CHR ''{'' # b @ CHR ''}'' # c"
    then obtain a b c where s: "s = a @ CHR ''{'' # b @ CHR ''}'' # c" by blast
    obtain p where "dropWhile (\<lambda>c. c \<noteq> CHR ''{'') s = CHR ''{'' # p @ b @ CHR ''}'' # c"
      using dropWhile_upto [of "CHR ''{''" a "b @ CHR ''}'' # c"] s by blast
    then have "jsonMatch s \<noteq> None" unfolding jsonMatch_def by simp
    then show False using n by simp
  qed
next
  assume h: "\<not> (\<exists>a b c. s = a @ CHR ''{'' # b @ CHR ''}'' # c)"
  show "jsonMatch s = None"
  proof (cases "dropWhile (\<lambda>c. c \<noteq> CHR ''{'') s")
    case Nil
    show ?thesis unfolding jsonMatch_def Nil by simp
  next
    case (Cons x rest)
    have x: "x = CHR ''{''" using Cons hd_dropWhile [of "\<lambda>c. c \<noteq> CHR ''{''" s] by auto
    have s: "s = takeWhile (\<lambda>c. c \<noteq> CHR ''{'') s @ CHR ''{'' # rest"
      using Cons x takeWhile_dropWhile_id [of "\<lambda>c. c \<noteq> CHR ''{''" s] by simp
    have "CHR ''}'' \<notin> set rest"
    proof
      assume "CHR ''}'' \<in> set rest"
      then obtain b c where "rest = b @ CHR ''}'' # c" by (meson split_list)
      then have "s = takeWhile (\<lambda>c. c \<noteq> CHR ''{'') s @ CHR ''{'' # b @ CHR ''}'' # c"
        using s by simp
      then show False using h by blast
    qed
    then show ?thesis unfolding jsonMatch_def Cons by simp
  qed
qed

lemma fallback_show:
  "fallbackIntent ''show me red shirts'' =
     \<lparr>intent_type = ''product_search'', requiresTools = True,
      suggestedTools = [''search_products''],
      parameters = [(''query'', JStr ''show me red shirts'')]\<rparr>"
  by (simp add: fallbackIntent_def toLowerCase_def lower_char_def Let_def)

lemma jsonMatch_braces: "jsonMatch ''Sure: {not json}'' = Some ''{not json}''"
  by (simp add: jsonMatch_def)

lemma jsonMatch_inconsistent: "jsonMatch inconsistent_reply = Some inconsistent_reply"
  by (simp add: jsonMatch_def inconsistent_reply_def)

lemma fallbackIntent_consistent:
  "requiresTools (fallbackIntent userMessage) = (suggestedTools (fallbackIntent userMessage) \<noteq> [])"
  by (simp add: fallbackIntent_def Let_def general_question_def)

subsection \<open>The model call fails\<close>

text \<open>
  Claim C8.  When the model call of the classification throws, the message
  \<open>show me red shirts\<close> is classified as \<open>product_search\<close>, with \<open>requiresTools\<close> true,
  \<open>search_products\<close> as the only suggested tool and the message itself as \<open>query\<close>.
\<close>

theorem fallback_on_model_failure:
  assumes "generateCompletion
             [(''system'', intentPrompt), (''user'', ''User message: \"show me red shirts\"'')]
             \<lparr>temperature = 3 / 10, maxTokens = 300\<rparr> = Inl e"
  shows "analyzeIntent generateCompletion JSON_parse ''show me red shirts'' history =
           \<lparr>intent_type = ''product_search'', requiresTools = True,
            suggestedTools = [''search_products''],
            parameters = [(''query'', JStr ''show me red shirts'')]\<rparr>"
  using assms by (simp add: analyzeIntent_def analyzeIntent_try_def fallback_show)

text \<open>The model is down.\<close>

theorem fallback_on_model_failure_witness:
  "model_down [(''system'', intentPrompt), (''user'', ''User message: \"show me red shirts\"'')]
      \<lparr>temperature = 3 / 10, maxTokens = 300\<rparr> = Inl (Error ''connect ECONNREFUSED'') \<and>
   analyzeIntent model_down parse_reply ''show me red shirts'' [] =
     \<lparr>intent_type = ''product_search'', requiresTools = True,
      suggestedTools = [''search_products''],
      parameters = [(''query'', JStr ''show me red shirts'')]\<rparr>"
proof -
  have d: "model_down [(''system'', intentPrompt), (''user'', ''User message: \"show me red shirts\"'')]
      \<lparr>temperature = 3 / 10, maxTokens = 300\<rparr> = Inl (Error ''connect ECONNREFUSED'')"
    by (simp add: model_down_def)
  from fallback_on_model_failure [of model_down, OF d] d show ?thesis by blast
qed

subsection \<open>The model answers without JSON\<close>

text \<open>
  Claim C2 sends a reply without a JSON object to the keyword fallback.  The source
  returns the default intent instead: the reply below has no brace, the message contains
  \<open>show\<close>, and the intent is \<open>general_question\<close>.
\<close>

theorem no_json_counterexample:
  "jsonMatch ''The user wants to see some shirts.'' = None \<and>
   str_includes (toLowerCase ''show me red shirts'') ''show'' \<and>
   analyzeIntent (model_replies ''The user wants to see some shirts.'') parse_reply
       ''show me red shirts'' [] =
     \<lparr>intent_type = ''general_question'', requiresTools = False, suggestedTools = [],
      parameters = []\<rparr>"
  by (simp add: analyzeIntent_def analyzeIntent_try_def model_replies_def jsonMatch_def
        general_question_def toLowerCase_def lower_char_def)

text \<open>
  Claim C2, amended.  When the model call succeeds: a reply without a brace-delimited
  region yields \<open>general_question\<close> with no tool; a reply whose brace-delimited region
  \<open>JSON.parse\<close> rejects yields the keyword fallback, which for a message containing
  \<open>show\<close> is \<open>product_search\<close> with \<open>search_products\<close>.
\<close>

theorem unparsable_reply_outcomes:
  assumes "generateCompletion
             [(''system'', intentPrompt), (''user'', ''User message: \"'' @ userMessage @ ''\"'')]
             \<lparr>temperature = 3 / 10, maxTokens = 300\<rparr> = Inr result"
  shows "(jsonMatch (completion_content result) = None \<longrightarrow>
            analyzeIntent generateCompletion JSON_parse userMessage history = general_question) \<and>
         (\<forall>j e. jsonMatch (completion_content result) = Some j \<and> JSON_parse j = Inl e \<longrightarrow>
            analyzeIntent generateCompletion JSON_parse userMessage history =
              fallbackIntent userMessage) \<and>
         (str_includes (toLowerCase userMessage) ''show'' \<longrightarrow>
            fallbackIntent userMessage =
              \<lparr>intent_type = ''product_search'', requiresTools = True,
               suggestedTools = [''search_products''],
               parameters = [(''query'', JStr userMessage)]\<rparr>)"
  using assms by (auto simp: analyzeIntent_def analyzeIntent_try_def fallbackIntent_def Let_def)

text \<open>One reply without braces, one with braces around text that is not JSON.\<close>

theorem unparsable_reply_outcomes_witness:
  "model_replies ''The user wants to see some shirts.''
      [(''system'', intentPrompt), (''user'', ''User message: \"'' @ ''show me red shirts'' @ ''\"'')]
      \<lparr>temperature = 3 / 10, maxTokens = 300\<rparr> =
     Inr \<lparr>completion_content = ''The user wants to see some shirts.'', usage = JNull\<rparr> \<and>
   jsonMatch ''The user wants to see some shirts.'' = None \<and>
   analyzeIntent (model_replies ''The user wants to see some shirts.'') parse_reply
       ''show me red shirts'' [] = general_question \<and>
   jsonMatch ''Sure: {not json}'' = Some ''{not json}'' \<and>
   parse_reply ''{not json}'' = Inl (Error ''Unexpected token'') \<and>
   str_includes (toLowerCase ''show me red shirts'') ''show'' \<and>
   analyzeIntent (model_replies ''Sure: {not json}'') parse_reply ''show me red shirts'' [] =
     \<lparr>intent_type = ''product_search'', requiresTools = True,
      suggestedTools = [''search_products''],
      parameters = [(''query'', JStr ''show me red shirts'')]\<rparr>"
proof -
  let ?msgs = "[(''system'', intentPrompt), (''user'', ''User message: \"'' @ ''show me red shirts'' @ ''\"'')]"
  let ?opts = "\<lparr>temperature = 3 / 10, maxTokens = 300\<rparr>"
  have a: "model_replies ''The user wants to see some shirts.'' ?msgs ?opts =
     Inr \<lparr>completion_content = ''The user wants to see some shirts.'', usage = JNull\<rparr>"
    by (simp add: model_replies_def)
  have b: "model_replies ''Sure: {not json}'' ?msgs ?opts =
     Inr \<lparr>completion_content = ''Sure: {not json}'', usage = JNull\<rparr>"
    by (simp add: model_replies_def)
  have n: "jsonMatch ''The user wants to see some shirts.'' = None"
    by (simp add: jsonMatch_def)
  have p: "parse_reply ''{not json}'' = Inl (Error ''Unexpected token'')"
    by (simp add: parse_reply_def inconsistent_reply_def cart_reply_def)
  have s: "str_includes (toLowerCase ''show me red shirts'') ''show''"
    by (simp add: toLowerCase_def lower_char_def)
  note t1 = unparsable_reply_outcomes [of "model_replies ''The user wants to see some shirts.''"
      "''show me red shirts''", OF a, of parse_reply "[]"]
  note t2 = unparsable_reply_outcomes [of "model_replies ''Sure: {not json}''"
      "''show me red shirts''", OF b, of parse_reply "[]"]
  from t1 n have c1: "analyzeIntent (model_replies ''The user wants to see some shirts.'') parse_reply
       ''show me red shirts'' [] = general_question" by simp
  from t2 jsonMatch_braces p s
  have c2: "analyzeIntent (model_replies ''Sure: {not json}'') parse_reply ''show me red shirts'' [] =
     \<lparr>intent_type = ''product_search'', requiresTools = True,
      suggestedTools = [''search_products''],
      parameters = [(''query'', JStr ''show me red shirts'')]\<rparr>"
    by simp
  show ?thesis using a n c1 jsonMatch_braces p s c2 by blast
qed

subsection \<open>\<open>requiresTools\<close> and the suggested tools\<close>

text \<open>
  Claim C6 has \<open>requiresTools\<close> true exactly when tools are suggested, on every path.  On
  the model path the intent is the parsed object as it is: a reply with \<open>requiresTools\<close>
  true and an empty \<open>suggestedTools\<close> is returned unchanged.
\<close>

theorem requiresTools_counterexample:
  "requiresTools (analyzeIntent (model_replies inconsistent_reply) parse_reply ''hello'' []) \<and>
   suggestedTools (analyzeIntent (model_replies inconsistent_reply) parse_reply ''hello'' []) = []"
  by (simp add: analyzeIntent_def analyzeIntent_try_def model_replies_def jsonMatch_inconsistent
        parse_reply_def)

text \<open>
  Claim C6, amended.  Every intent \<open>analyzeIntent\<close> returns either has \<open>requiresTools\<close>
  true exactly when \<open>suggestedTools\<close> is not empty, or is the object \<open>JSON.parse\<close> made of
  the model's reply, returned as parsed.
\<close>

theorem requiresTools_consistent_or_parsed:
  "requiresTools (analyzeIntent generateCompletion JSON_parse userMessage history) =
     (suggestedTools (analyzeIntent generateCompletion JSON_parse userMessage history) \<noteq> []) \<or>
   (\<exists>result j.
      generateCompletion
        [(''system'', intentPrompt), (''user'', ''User message: \"'' @ userMessage @ ''\"'')]
        \<lparr>temperature = 3 / 10, maxTokens = 300\<rparr> = Inr result \<and>
      jsonMatch (completion_content result) = Some j \<and>
      JSON_parse j = Inr (analyzeIntent generateCompletion JSON_parse userMessage history))"
  by (auto simp: analyzeIntent_def analyzeIntent_try_def fallbackIntent_consistent
        general_question_def split: sum.splits option.splits)

text \<open>With the model down the intent comes from the fallback and is consistent.\<close>

theorem requiresTools_consistent_or_parsed_witness:
  "requiresTools (analyzeIntent model_down parse_reply ''show me red shirts'' []) =
     (suggestedTools (analyzeIntent model_down parse_reply ''show me red shirts'' []) \<noteq> [])"
  using requiresTools_consistent_or_parsed [of model_down parse_reply "''show me red shirts''" "[]"]
  by (simp add: model_down_def)

section \<open>Tools\<close>

subsection \<open>A tool name that is not in the catalog\<close>

lemma executeTool_returns:
  "\<exists>r. fst (executeTool tools requested params ctx w) = Inr r"
  by (simp add: executeTool_def split: option.splits prod.splits sum.splits)

text \<open>
  Claim C7.  For a name that is none of the seven tools, \<open>executeTool\<close> returns, for any
  params and context, the result with \<open>success\<close> false and the error
  \<open>Unknown tool: <name>\<close>; nothing is thrown and the backend is not called.  The same
  holds through the initialised adapter.
\<close>

theorem unknown_tool_result:
  assumes "requested \<notin> set [''search_products'', ''get_product_details'', ''create_cart'',
             ''add_to_cart'', ''get_cart'', ''update_cart_item'', ''remove_cart_item'']"
  shows "executeTool (BuiltInTools magentoClient coerce present) requested params ctx w =
           (Inr \<lparr>success = False, data = JUndefined,
                 error = Some (''Unknown tool: '' @ requested), message = None\<rparr>, w) \<and>
         ToolAdapter_executeTool (Some (BuiltInTools magentoClient coerce present)) requested
             params ctx w =
           (Inr \<lparr>success = False, data = JUndefined,
                 error = Some (''Unknown tool: '' @ requested), message = None\<rparr>, w)"
  using assms
  by (auto simp: ToolAdapter_executeTool_def executeTool_def failure_def
        BuiltInTools_def productSearchTool_def getProductDetailsTool_def createCartTool_def
        addToCartTool_def getCartTool_def updateCartItemTool_def removeCartItemTool_def)

text \<open>A mistyped \<open>search_products\<close>.\<close>

theorem unknown_tool_result_witness:
  "''serch_products'' \<notin> set [''search_products'', ''get_product_details'', ''create_cart'',
             ''add_to_cart'', ''get_cart'', ''update_cart_item'', ''remove_cart_item''] \<and>
   executeTool (BuiltInTools logging_backend no_coerce plain_present) ''serch_products''
       [(''query'', JStr ''jeans'')] \<lparr>ctx_customerToken = None, ctx_cartId = None\<rparr> [] =
     (Inr \<lparr>success = False, data = JUndefined,
           error = Some ''Unknown tool: serch_products'', message = None\<rparr>, [])"
proof -
  have n: "''serch_products'' \<notin> set [''search_products'', ''get_product_details'', ''create_cart'',
             ''add_to_cart'', ''get_cart'', ''update_cart_item'', ''remove_cart_item'']"
    by simp
  from unknown_tool_result [OF n, of logging_backend no_coerce plain_present
      "[(''query'', JStr ''jeans'')]" "\<lparr>ctx_customerToken = None, ctx_cartId = None\<rparr>" "[]"] n
  show ?thesis by simp
qed

subsection \<open>The page size of a product search\<close>

lemma Math_min_20: "\<not> js_gt (Math_min x (Fin 20)) (Fin 20)"
  by (cases x) simp_all

text \<open>
  Claim C9.  The variables of the search query carry as \<open>pageSize\<close> the smaller of the
  supplied number and 20, and 10 when none is supplied; \<open>currentPage\<close> is 1 when none is
  supplied.  Whatever the params, the \<open>pageSize\<close> sent is a number that is not greater
  than 20, and these variables are what the tool hands to the backend.
\<close>

theorem search_page_size:
  "(\<forall>x. obj_get params ''pageSize'' = JNum x \<longrightarrow>
      obj_get (search_variables coerce params) ''pageSize'' = JNum (Math_min x (Fin 20))) \<and>
   (\<forall>n. obj_get params ''pageSize'' = JNum (Fin n) \<longrightarrow>
      obj_get (search_variables coerce params) ''pageSize'' = JNum (Fin (min n 20))) \<and>
   (obj_get params ''pageSize'' = JUndefined \<longrightarrow>
      obj_get (search_variables coerce params) ''pageSize'' = JNum (Fin 10)) \<and>
   (obj_get params ''currentPage'' = JUndefined \<longrightarrow>
      obj_get (search_variables coerce params) ''currentPage'' = JNum (Fin 1)) \<and>
   (\<exists>x. obj_get (search_variables coerce params) ''pageSize'' = JNum x \<and>
        \<not> js_gt x (Fin 20)) \<and>
   execute (productSearchTool magentoClient coerce present) params ctx w =
     run_tool magentoClient PRODUCT_SEARCH_QUERY (JObj (search_variables coerce params)) None
       (present ''search_products'' params) w"
  by (simp add: search_variables_def obj_get_def with_default_def Let_def productSearchTool_def
        Math_min_20)

text \<open>A request for 50 products per page, and one that names no page size.\<close>

theorem search_page_size_witness:
  "obj_get [(''query'', JStr ''jeans''), (''pageSize'', JNum (Fin 50))] ''pageSize'' = JNum (Fin 50) \<and>
   obj_get [(''query'', JStr ''jeans''), (''pageSize'', JNum (Fin 50))] ''currentPage'' = JUndefined \<and>
   obj_get [(''query'', JStr ''jeans'')] ''pageSize'' = JUndefined \<and>
   obj_get (search_variables no_coerce [(''query'', JStr ''jeans''), (''pageSize'', JNum (Fin 50))])
     ''pageSize'' = JNum (Fin 20) \<and>
   obj_get (search_variables no_coerce [(''query'', JStr ''jeans''), (''pageSize'', JNum (Fin 50))])
     ''currentPage'' = JNum (Fin 1) \<and>
   obj_get (search_variables no_coerce [(''query'', JStr ''jeans'')]) ''pageSize'' = JNum (Fin 10) \<and>
   snd (execute (productSearchTool logging_backend no_coerce plain_present)
          [(''query'', JStr ''jeans''), (''pageSize'', JNum (Fin 50))]
          \<lparr>ctx_customerToken = None, ctx_cartId = None\<rparr> []) =
     [(PRODUCT_SEARCH_QUERY,
       JObj [(''search'', JStr ''jeans''), (''pageSize'', JNum (Fin 20)),
             (''currentPage'', JNum (Fin 1))])]"
proof -
  let ?p = "[(''query'', JStr ''jeans''), (''pageSize'', JNum (Fin 50))]"
  let ?q = "[(''query'', JStr ''jeans'')]"
  have a: "obj_get ?p ''pageSize'' = JNum (Fin 50)" by (simp add: obj_get_def)
  have b: "obj_get ?p ''currentPage'' = JUndefined" by (simp add: obj_get_def)
  have c: "obj_get ?q ''pageSize'' = JUndefined" by (simp add: obj_get_def)
  note t1 = search_page_size [of ?p no_coerce logging_backend plain_present
      "\<lparr>ctx_customerToken = None, ctx_cartId = None\<rparr>" "[]"]
  note t2 = search_page_size [of ?q no_coerce logging_backend plain_present
      "\<lparr>ctx_customerToken = None, ctx_cartId = None\<rparr>" "[]"]
  from t1 a have d: "obj_get (search_variables no_coerce ?p) ''pageSize'' = JNum (Fin 20)"
    by simp
  from t1 b have e: "obj_get (search_variables no_coerce ?p) ''currentPage'' = JNum (Fin 1)"
    by simp
  from t2 c have f: "obj_get (search_variables no_coerce ?q) ''pageSize'' = JNum (Fin 10)"
    by simp
  from t1 have "snd (execute (productSearchTool logging_backend no_coerce plain_present) ?p
          \<lparr>ctx_customerToken = None, ctx_cartId = None\<rparr> []) =
     snd (run_tool logging_backend PRODUCT_SEARCH_QUERY (JObj (search_variables no_coerce ?p)) None
       (plain_present ''search_products'' ?p) [])"
    by simp
  also have "\<dots> = [(PRODUCT_SEARCH_QUERY,
       JObj [(''search'', JStr ''jeans''), (''pageSize'', JNum (Fin 20)),
             (''currentPage'', JNum (Fin 1))])]"
    by (simp add: run_tool_def logging_backend_def plain_present_def search_variables_def
        obj_get_def with_default_def)
  finally show ?thesis using a b c d e f by blast
qed

section \<open>Creating a cart and adding to it in one turn\<close>

lemma executeTools_two:
  "suggestedTools i = [a, b] \<Longrightarrow>
   executeTools adapter i ctx w =
     (let r1 = adapter a (extractToolParameters a i ctx) ctx w;
          r2 = adapter b (extractToolParameters b i ctx) ctx (snd r1)
      in ([outcome_of a (fst r1), outcome_of b (fst r2)], snd r2))"
  by (simp add: executeTools_def Let_def split: prod.splits)

lemma jsonMatch_cart: "jsonMatch cart_reply = Some cart_reply"
  by (simp add: jsonMatch_def cart_reply_def)

lemma cart_reply_neq: "cart_reply \<noteq> inconsistent_reply"
  by (simp add: cart_reply_def inconsistent_reply_def)

lemma analyzeIntent_cart:
  "analyzeIntent (model_replies cart_reply) parse_reply ''add the red shirt to a new cart'' [] =
     cart_intent"
  by (simp add: analyzeIntent_def analyzeIntent_try_def model_replies_def jsonMatch_cart
        parse_reply_def cart_reply_neq)

text \<open>
  Claim C1 feeds the cart reference \<open>create_cart\<close> returns into the parameters of
  \<open>add_to_cart\<close>.  The source does not: with no cart in the context, \<open>create_cart\<close>
  answers \<open>CART-1\<close>, the parameters \<open>add_to_cart\<close> is called with hold the \<open>sku\<close> only,
  and the request it sends has an undefined \<open>cartId\<close>.
\<close>

theorem cart_sequence_counterexample:
  "suggestedTools cart_intent = [''create_cart'', ''add_to_cart''] \<and>
   map toolName
     (fst (executeTools
             (ToolAdapter_executeTool (Some (BuiltInTools logging_backend no_coerce plain_present)))
             cart_intent \<lparr>ctx_customerToken = None, ctx_cartId = None\<rparr> [])) =
     [''create_cart'', ''add_to_cart''] \<and>
   map data
     (take 1
        (fst (executeTools
                (ToolAdapter_executeTool
                   (Some (BuiltInTools logging_backend no_coerce plain_present)))
                cart_intent \<lparr>ctx_customerToken = None, ctx_cartId = None\<rparr> []))) =
     [JObj [(''cartId'', JStr ''CART-1'')]] \<and>
   extractToolParameters ''add_to_cart'' cart_intent
     \<lparr>ctx_customerToken = None, ctx_cartId = None\<rparr> = [(''sku'', JStr ''SHIRT-1'')] \<and>
   snd (executeTools
          (ToolAdapter_executeTool (Some (BuiltInTools logging_backend no_coerce plain_present)))
          cart_intent \<lparr>ctx_customerToken = None, ctx_cartId = None\<rparr> []) =
     [(CREATE_EMPTY_CART_MUTATION, JObj []),
      (ADD_PRODUCTS_TO_CART_MUTATION,
       JObj [(''cartId'', JUndefined),
             (''cartItems'',
              JArr [JObj [(''sku'', JStr ''SHIRT-1''), (''quantity'', JNum (Fin 1))]])])]"
  by (simp add: executeTools_def cart_intent_def ToolAdapter_executeTool_def executeTool_def
        BuiltInTools_def productSearchTool_def getProductDetailsTool_def createCartTool_def
        addToCartTool_def getCartTool_def updateCartItemTool_def removeCartItemTool_def
        extractToolParameters_def run_tool_def logging_backend_def plain_present_def
        createCart_result_def obj_get_def with_default_def)

text \<open>
  Claim C1, amended.  For an intent suggesting \<open>create_cart\<close> then \<open>add_to_cart\<close>,
  \<open>executeTools\<close> calls \<open>create_cart\<close> first and \<open>add_to_cart\<close> on the world the
  first call left.  The parameters of \<open>add_to_cart\<close> are the intent's parameters, with
  \<open>cartId\<close> set to the cart of the context when the context has one; they do not depend
  on what \<open>create_cart\<close> returned.  A turn whose intent requires tools runs just these
  calls.
\<close>

theorem cart_sequence_parameters:
  assumes "suggestedTools i = [''create_cart'', ''add_to_cart'']"
  shows "executeTools adapter i ctx w =
           (let r1 = adapter ''create_cart'' (extractToolParameters ''create_cart'' i ctx) ctx w;
                r2 = adapter ''add_to_cart'' (extractToolParameters ''add_to_cart'' i ctx) ctx
                       (snd r1)
            in ([outcome_of ''create_cart'' (fst r1), outcome_of ''add_to_cart'' (fst r2)],
                snd r2)) \<and>
         extractToolParameters ''add_to_cart'' i ctx =
           (case ctx_cartId ctx of
              None \<Rightarrow> parameters i
            | Some c \<Rightarrow> if c = [] then parameters i
                        else AList.update ''cartId'' (JStr c) (parameters i)) \<and>
         (analyzeIntent generateCompletion JSON_parse userMessage history = i \<and> requiresTools i
            \<longrightarrow> snd (processMessage generateCompletion JSON_parse stringify adapter userMessage
                       history ctx w) = snd (executeTools adapter i ctx w))"
proof (intro conjI)
  show "executeTools adapter i ctx w =
           (let r1 = adapter ''create_cart'' (extractToolParameters ''create_cart'' i ctx) ctx w;
                r2 = adapter ''add_to_cart'' (extractToolParameters ''add_to_cart'' i ctx) ctx
                       (snd r1)
            in ([outcome_of ''create_cart'' (fst r1), outcome_of ''add_to_cart'' (fst r2)],
                snd r2))"
    using assms by (rule executeTools_two)
  show "extractToolParameters ''add_to_cart'' i ctx =
           (case ctx_cartId ctx of
              None \<Rightarrow> parameters i
            | Some c \<Rightarrow> if c = [] then parameters i
                        else AList.update ''cartId'' (JStr c) (parameters i))"
    by (simp add: extractToolParameters_def split: option.splits)
  show "analyzeIntent generateCompletion JSON_parse userMessage history = i \<and> requiresTools i
            \<longrightarrow> snd (processMessage generateCompletion JSON_parse stringify adapter userMessage
                       history ctx w) = snd (executeTools adapter i ctx w)"
    by (auto simp: processMessage_def Let_def split: prod.splits sum.splits)
qed

text \<open>A turn for a session that already has the cart \<open>CART-0\<close>.\<close>

theorem cart_sequence_parameters_witness:
  "suggestedTools cart_intent = [''create_cart'', ''add_to_cart''] \<and>
   analyzeIntent (model_replies cart_reply) parse_reply ''add the red shirt to a new cart'' [] =
     cart_intent \<and>
   requiresTools cart_intent \<and>
   extractToolParameters ''add_to_cart'' cart_intent
     \<lparr>ctx_customerToken = None, ctx_cartId = Some ''CART-0''\<rparr> =
     [(''sku'', JStr ''SHIRT-1''), (''cartId'', JStr ''CART-0'')] \<and>
   snd (processMessage (model_replies cart_reply) parse_reply no_stringify
          (ToolAdapter_executeTool (Some (BuiltInTools logging_backend no_coerce plain_present)))
          ''add the red shirt to a new cart'' []
          \<lparr>ctx_customerToken = None, ctx_cartId = Some ''CART-0''\<rparr> []) =
     [(CREATE_EMPTY_CART_MUTATION, JObj []),
      (ADD_PRODUCTS_TO_CART_MUTATION,
       JObj [(''cartId'', JStr ''CART-0''),
             (''cartItems'',
              JArr [JObj [(''sku'', JStr ''SHIRT-1''), (''quantity'', JNum (Fin 1))]])])]"
proof -
  let ?adapter = "ToolAdapter_executeTool (Some (BuiltInTools logging_backend no_coerce plain_present))"
  let ?ctx = "\<lparr>ctx_customerToken = None, ctx_cartId = Some ''CART-0''\<rparr>"
  have s: "suggestedTools cart_intent = [''create_cart'', ''add_to_cart'']"
    by (simp add: cart_intent_def)
  have r: "requiresTools cart_intent" by (simp add: cart_intent_def)
  have p: "parameters cart_intent = [(''sku'', JStr ''SHIRT-1'')]" by (simp add: cart_intent_def)
  have c1: "?adapter ''create_cart'' ps ?ctx [] =
      (Inr \<lparr>success = True, data = JObj [(''cartId'', JStr ''CART-1'')], error = None,
             message = Some ''Shopping cart created successfully''\<rparr>,
       [(CREATE_EMPTY_CART_MUTATION, JObj [])])" for ps
    by (simp add: ToolAdapter_executeTool_def executeTool_def
        BuiltInTools_def productSearchTool_def getProductDetailsTool_def createCartTool_def
        run_tool_def logging_backend_def createCart_result_def obj_get_def)
  have c2: "snd (?adapter ''add_to_cart'' [(''sku'', JStr ''SHIRT-1''), (''cartId'', JStr ''CART-0'')]
                   ?ctx rs) =
      rs @ [(ADD_PRODUCTS_TO_CART_MUTATION,
       JObj [(''cartId'', JStr ''CART-0''),
             (''cartItems'',
              JArr [JObj [(''sku'', JStr ''SHIRT-1''), (''quantity'', JNum (Fin 1))]])])]" for rs
    by (simp add: ToolAdapter_executeTool_def executeTool_def
        BuiltInTools_def productSearchTool_def getProductDetailsTool_def createCartTool_def
        addToCartTool_def run_tool_def logging_backend_def plain_present_def obj_get_def
        with_default_def)
  note t = cart_sequence_parameters [OF s, of ?adapter ?ctx "[]" "model_replies cart_reply"
      parse_reply "''add the red shirt to a new cart''" "[]" no_stringify]
  from t have e: "extractToolParameters ''add_to_cart'' cart_intent ?ctx =
     [(''sku'', JStr ''SHIRT-1''), (''cartId'', JStr ''CART-0'')]"
    by (simp add: p)
  from t analyzeIntent_cart r
  have "snd (processMessage (model_replies cart_reply) parse_reply no_stringify ?adapter
          ''add the red shirt to a new cart'' [] ?ctx []) =
        snd (executeTools ?adapter cart_intent ?ctx [])"
    by blast
  also from t have "\<dots> = snd (?adapter ''add_to_cart''
         (extractToolParameters ''add_to_cart'' cart_intent ?ctx) ?ctx
         (snd (?adapter ''create_cart'' (extractToolParameters ''create_cart'' cart_intent ?ctx)
                 ?ctx [])))"
    by (simp add: Let_def)
  also have "\<dots> = [(CREATE_EMPTY_CART_MUTATION, JObj []),
      (ADD_PRODUCTS_TO_CART_MUTATION,
       JObj [(''cartId'', JStr ''CART-0''),
             (''cartItems'',
              JArr [JObj [(''sku'', JStr ''SHIRT-1''), (''quantity'', JNum (Fin 1))]])])]"
    unfolding e c1 snd_conv c2 by simp
  finally show ?thesis using s analyzeIntent_cart r e by blast
qed

end
